(* ===== verification/Prelude.thy ===== *)
theory Prelude
  imports Main "HOL-Library.Word" "HOL-Library.Sublist"
begin

text \<open>
  Shared vocabulary of the development: the types that name the model's data
  (attributes as an association list, as the HTML tokenizer produces them in
  source order; Rust's \<open>u32\<close> as a 32-bit word), the error-propagating bind of
  Rust's \<open>?\<close> operator on a sum type, and the generic lemmas on lists,
  sums and subsequences that the component theories share.
\<close>

type_synonym attr = "string \<times> string"
type_synonym attrs = "attr list"
type_synonym u32 = "32 word"

named_theorems model_simps "equations of the model used to evaluate it on concrete inputs"

subsection \<open>Rust's \<open>?\<close> on \<open>Result\<close>: a bind on the sum type\<close>

fun sbind :: "'e + 'a \<Rightarrow> ('a \<Rightarrow> 'e + 'b) \<Rightarrow> 'e + 'b" where
  "sbind (Inl e) f = Inl e"
| "sbind (Inr a) f = f a"

lemma sbind_eq_Inr_iff [simp]:
  "sbind m f = Inr b \<longleftrightarrow> (\<exists>a. m = Inr a \<and> f a = Inr b)"
  by (cases m) auto

lemma sbind_eq_Inl_iff:
  "sbind m f = Inl e \<longleftrightarrow> m = Inl e \<or> (\<exists>a. m = Inr a \<and> f a = Inl e)"
  by (cases m) auto

lemma sbind_Inr_right [simp]: "sbind m Inr = m"
  by (cases m) auto

lemma sbind_assoc [simp]: "sbind (sbind m f) g = sbind m (\<lambda>a. sbind (f a) g)"
  by (cases m) auto

lemma isl_sbind [simp]: "isl (sbind m f) \<longleftrightarrow> isl m \<or> (\<exists>a. m = Inr a \<and> isl (f a))"
  by (cases m) auto

subsection \<open>Lists\<close>

lemma subseq_append_mono [intro]:
  "subseq xs ys \<Longrightarrow> subseq xs' ys' \<Longrightarrow> subseq (xs @ xs') (ys @ ys')"
  by (rule list_emb_append_mono)

lemma subseq_append_right [intro]: "subseq xs ys \<Longrightarrow> subseq xs (zs @ ys)"
  by (simp add: list_emb_append2)

lemma map_of_append_key_fresh [simp]:
  "k \<notin> fst ` set xs \<Longrightarrow> map_of (xs @ ys) k = map_of ys k"
  by (induction xs) auto

lemma sublist_wrap: "sublist xs ys \<Longrightarrow> sublist xs (a # ys @ zs)"
  unfolding sublist_def by (metis append_Cons append_assoc)

lemma sublist_append_prefix: "sublist xs ys \<Longrightarrow> sublist xs (ys @ zs)"
  unfolding sublist_def by (metis append_assoc)

lemma sublist_append_suffix: "sublist xs zs \<Longrightarrow> sublist xs (ys @ zs)"
  unfolding sublist_def by (metis append_assoc)

end
