(* ===== verification/Markup.thy ===== *)
theory Markup
  imports Prelude
begin

text \<open>
  The markup data both engines work on. The sources never see markup text as
  characters: \<open>scraper\<close> (\<open>Html::parse_document\<close>, src/lib/images-extractor)
  and \<open>lol_html\<close> (\<open>rewrite_str\<close>, src/lib/html-utils) first run the HTML
  tokenizer, which lower-cases tag and attribute names and yields start tags with
  their attributes in source order, end tags and text. This theory models that
  token stream (\<open>token\<close>), the document tree (\<open>node\<close>), the printing of a
  tree as a token stream (\<open>serialise_node\<close>), and the tolerant tree builder
  that \<open>Html::parse_document\<close> runs over the tokens (\<open>parse_document\<close>):
  void elements never take children, an end tag closes the innermost open
  element of its name together with everything opened inside it, a stray end
  tag is ignored, and the elements still open at the end are closed. The
  builder is total: malformed input degrades, it never fails. The main lemma is
  the round trip \<open>parse_document (serialise_nodes f) = f\<close> for well-formed
  forests.
\<close>

datatype token = StartTag string attrs | EndTag string | TextTok string

datatype node = Element string attrs "node list" | Text string

definition void_elements :: "string list" where
  "void_elements = [''area'', ''base'', ''br'', ''col'', ''embed'', ''hr'', ''img'',
                    ''input'', ''link'', ''meta'', ''source'', ''track'', ''wbr'']"

definition is_void :: "string \<Rightarrow> bool" where
  "is_void t \<longleftrightarrow> t \<in> set void_elements"

declare is_void_def [model_simps] void_elements_def [model_simps]

subsection \<open>Printing a tree as a token stream\<close>

fun serialise_node :: "node \<Rightarrow> token list"
  and serialise_nodes :: "node list \<Rightarrow> token list" where
  "serialise_node (Element t a cs) =
     (if is_void t then [StartTag t a] else StartTag t a # serialise_nodes cs @ [EndTag t])"
| "serialise_node (Text s) = [TextTok s]"
| "serialise_nodes [] = []"
| "serialise_nodes (n # ns) = serialise_node n @ serialise_nodes ns"

text \<open>A tree is well formed when no void element has children.\<close>

fun wf_node :: "node \<Rightarrow> bool"
  and wf_nodes :: "node list \<Rightarrow> bool" where
  "wf_node (Element t a cs) \<longleftrightarrow> (\<not> is_void t \<or> cs = []) \<and> wf_nodes cs"
| "wf_node (Text s) \<longleftrightarrow> True"
| "wf_nodes [] \<longleftrightarrow> True"
| "wf_nodes (n # ns) \<longleftrightarrow> wf_node n \<and> wf_nodes ns"

lemma serialise_nodes_append [simp]:
  "serialise_nodes (xs @ ys) = serialise_nodes xs @ serialise_nodes ys"
  by (induction xs) auto

lemma wf_nodes_append [simp]: "wf_nodes (xs @ ys) \<longleftrightarrow> wf_nodes xs \<and> wf_nodes ys"
  by (induction xs) auto

text \<open>The elements of a forest in document order (depth-first pre-order), as
  tag and attributes.\<close>

fun elems_node :: "node \<Rightarrow> (string \<times> attrs) list"
  and elems_nodes :: "node list \<Rightarrow> (string \<times> attrs) list" where
  "elems_node (Element t a cs) = (t, a) # elems_nodes cs"
| "elems_node (Text s) = []"
| "elems_nodes [] = []"
| "elems_nodes (n # ns) = elems_node n @ elems_nodes ns"

lemma elems_nodes_append [simp]: "elems_nodes (xs @ ys) = elems_nodes xs @ elems_nodes ys"
  by (induction xs) auto

subsection \<open>The tolerant tree builder\<close>

text \<open>
  An open element is a frame: its tag, its attributes and the children built so
  far, most recent first. The stack holds the open elements, innermost first;
  \<open>acc\<close> collects the finished top-level nodes, most recent first.
\<close>

type_synonym frame = "string \<times> attrs \<times> node list"

fun add_child :: "node \<Rightarrow> frame list \<Rightarrow> node list \<Rightarrow> frame list \<times> node list" where
  "add_child n [] acc = ([], n # acc)"
| "add_child n ((t, a, cs) # st) acc = ((t, a, n # cs) # st, acc)"

lemma add_child_length [simp]: "length (fst (add_child n st acc)) = length st"
  by (cases "(n, st, acc)" rule: add_child.cases) auto

function close_to :: "string \<Rightarrow> frame list \<Rightarrow> node list \<Rightarrow> frame list \<times> node list" where
  "close_to t [] acc = ([], acc)"
| "close_to t ((t', a, cs) # st) acc =
     (case add_child (Element t' a (rev cs)) st acc of
        (st', acc') \<Rightarrow> if t' = t then (st', acc') else close_to t st' acc')"
  by pat_completeness auto
termination
  by (relation "measure (\<lambda>(t, st, acc). length st)") (auto simp: case_prod_beta)

function close_all :: "frame list \<Rightarrow> node list \<Rightarrow> node list" where
  "close_all [] acc = acc"
| "close_all ((t, a, cs) # st) acc =
     (case add_child (Element t a (rev cs)) st acc of (st', acc') \<Rightarrow> close_all st' acc')"
  by pat_completeness auto
termination
  by (relation "measure (\<lambda>(st, acc). length st)") (auto simp: case_prod_beta)

fun build :: "token list \<Rightarrow> frame list \<Rightarrow> node list \<Rightarrow> node list" where
  "build [] st acc = rev (close_all st acc)"
| "build (TextTok s # ts) st acc = (case add_child (Text s) st acc of (st', acc') \<Rightarrow> build ts st' acc')"
| "build (StartTag t a # ts) st acc =
     (if is_void t then (case add_child (Element t a []) st acc of (st', acc') \<Rightarrow> build ts st' acc')
      else build ts ((t, a, []) # st) acc)"
| "build (EndTag t # ts) st acc =
     (if t \<in> fst ` set st then (case close_to t st acc of (st', acc') \<Rightarrow> build ts st' acc')
      else build ts st acc)"

definition parse_document :: "token list \<Rightarrow> node list" where
  "parse_document ts = build ts [] []"

subsection \<open>Round trip: building the printed tree gives the tree back\<close>

definition add_children :: "node list \<Rightarrow> frame list \<Rightarrow> node list \<Rightarrow> frame list \<times> node list" where
  "add_children ns st acc = fold (\<lambda>n (st, acc). add_child n st acc) ns (st, acc)"

lemma add_children_simps [simp]:
  "add_children [] st acc = (st, acc)"
  "add_children (n # ns) st acc = (case add_child n st acc of (st', acc') \<Rightarrow> add_children ns st' acc')"
  by (simp_all add: add_children_def split: prod.split)

lemma add_children_frame [simp]:
  "add_children ns ((t, a, cs) # st) acc = ((t, a, rev ns @ cs) # st, acc)"
  by (induction ns arbitrary: cs) auto

lemma add_children_empty [simp]: "add_children ns [] acc = ([], rev ns @ acc)"
  by (induction ns arbitrary: acc) auto

lemma build_serialise:
  "wf_node n \<Longrightarrow> build (serialise_node n @ rest) st acc =
     (case add_child n st acc of (st', acc') \<Rightarrow> build rest st' acc')"
  "wf_nodes ns \<Longrightarrow> build (serialise_nodes ns @ rest) st acc =
     (case add_children ns st acc of (st', acc') \<Rightarrow> build rest st' acc')"
proof (induction n and ns arbitrary: st acc rest and st acc rest
    rule: serialise_node_serialise_nodes.induct)
  case (1 t a cs)
  show ?case
  proof (cases "is_void t")
    case True
    with "1.prems" show ?thesis by simp
  next
    case False
    with "1" have "build (serialise_nodes cs @ EndTag t # rest) ((t, a, []) # st) acc =
        build (EndTag t # rest) ((t, a, rev cs) # st) acc"
      by simp
    with False show ?thesis by simp
  qed
next
  case (4 n ns)
  then show ?case by (simp split: prod.split)
qed simp_all

lemma parse_serialised:
  "wf_nodes f \<Longrightarrow> parse_document (serialise_nodes f) = f"
  using build_serialise(2) [of f "[]" "[]" "[]"] by (simp add: parse_document_def)

subsection \<open>Subtrees\<close>

text \<open>Every subtree of a forest, in document order; the printing of a subtree is
  a contiguous part of the printing of the forest.\<close>

fun subtrees_node :: "node \<Rightarrow> node list"
  and subtrees_nodes :: "node list \<Rightarrow> node list" where
  "subtrees_node (Element t a cs) = Element t a cs # subtrees_nodes cs"
| "subtrees_node (Text s) = [Text s]"
| "subtrees_nodes [] = []"
| "subtrees_nodes (n # ns) = subtrees_node n @ subtrees_nodes ns"

lemma subtrees_nodes_member: "x \<in> set ns \<Longrightarrow> set (subtrees_node x) \<subseteq> set (subtrees_nodes ns)"
  by (induction ns) auto

lemma subtrees_node_self [simp]: "n \<in> set (subtrees_node n)"
  by (cases n) auto

lemma serialise_subtrees:
  "wf_node n \<Longrightarrow> x \<in> set (subtrees_node n) \<Longrightarrow> sublist (serialise_node x) (serialise_node n)"
  "wf_nodes ns \<Longrightarrow> x \<in> set (subtrees_nodes ns) \<Longrightarrow> sublist (serialise_node x) (serialise_nodes ns)"
proof (induction n and ns rule: subtrees_node_subtrees_nodes.induct)
  case (1 t a cs)
  show ?case
  proof (cases "x = Element t a cs")
    case False
    with "1.prems" have "x \<in> set (subtrees_nodes cs)" "wf_nodes cs" by auto
    with "1.IH" have "sublist (serialise_node x) (serialise_nodes cs)" by blast
    moreover from "1.prems" False have "\<not> is_void t" by (cases cs) auto
    ultimately show ?thesis by (simp add: sublist_wrap)
  qed simp
next
  case (4 n ns)
  then show ?case by (auto intro: sublist_append_prefix sublist_append_suffix)
qed simp_all

subsection \<open>The builder's state invariant: no void element has children\<close>

text \<open>Every open frame is a non-void element whose children built so far are
  well formed, and so is every finished node.\<close>

definition wf_frames :: "frame list \<Rightarrow> bool" where
  "wf_frames st \<longleftrightarrow> list_all (\<lambda>(t, a, cs). \<not> is_void t \<and> wf_nodes cs) st"

lemma wf_nodes_rev [simp]: "wf_nodes (rev ns) \<longleftrightarrow> wf_nodes ns"
  by (induction ns) auto

lemma wf_frames_simps [simp]:
  "wf_frames []"
  "wf_frames ((t, a, cs) # st) \<longleftrightarrow> \<not> is_void t \<and> wf_nodes cs \<and> wf_frames st"
  by (simp_all add: wf_frames_def)

lemma add_child_wf:
  "add_child n st acc = (st', acc') \<Longrightarrow> wf_node n \<Longrightarrow> wf_frames st \<Longrightarrow> wf_nodes acc \<Longrightarrow>
     wf_frames st' \<and> wf_nodes acc'"
  by (cases "(n, st, acc)" rule: add_child.cases) auto

lemma close_to_wf:
  "close_to t st acc = (st', acc') \<Longrightarrow> wf_frames st \<Longrightarrow> wf_nodes acc \<Longrightarrow>
     wf_frames st' \<and> wf_nodes acc'"
proof (induction t st acc arbitrary: st' acc' rule: close_to.induct)
  case (2 t t' a cs st acc)
  obtain st1 acc1 where a: "add_child (Element t' a (rev cs)) st acc = (st1, acc1)"
    by (cases "add_child (Element t' a (rev cs)) st acc")
  with "2.prems"(2,3) have "wf_frames st1 \<and> wf_nodes acc1" by (auto dest: add_child_wf)
  with "2" a show ?case by (auto split: if_splits)
qed simp

lemma close_all_wf: "wf_frames st \<Longrightarrow> wf_nodes acc \<Longrightarrow> wf_nodes (close_all st acc)"
proof (induction st acc rule: close_all.induct)
  case (2 t a cs st acc)
  obtain st1 acc1 where a: "add_child (Element t a (rev cs)) st acc = (st1, acc1)"
    by (cases "add_child (Element t a (rev cs)) st acc")
  with "2.prems" have "wf_frames st1 \<and> wf_nodes acc1" by (auto dest: add_child_wf)
  with "2.IH" a show ?case by simp
qed simp

lemma build_wf: "wf_frames st \<Longrightarrow> wf_nodes acc \<Longrightarrow> wf_nodes (build ts st acc)"
proof (induction ts st acc rule: build.induct)
  case (1 st acc)
  then show ?case by (simp add: close_all_wf)
next
  case (2 s ts st acc)
  obtain st1 acc1 where a: "add_child (Text s) st acc = (st1, acc1)"
    by (cases "add_child (Text s) st acc")
  with "2" show ?case by (auto dest: add_child_wf)
next
  case (3 t a ts st acc)
  obtain st1 acc1 where c: "add_child (Element t a []) st acc = (st1, acc1)"
    by (cases "add_child (Element t a []) st acc")
  with "3" show ?case by (cases "is_void t") (auto dest: add_child_wf)
next
  case (4 t ts st acc)
  obtain st1 acc1 where c: "close_to t st acc = (st1, acc1)"
    by (cases "close_to t st acc")
  with "4" show ?case by (cases "t \<in> fst ` set st") (auto dest: close_to_wf)
qed

text \<open>
  C16. Whatever token stream it is given, the tree builder of
  \<open>Html::parse_document\<close> returns a well-formed document: no void element
  (such as \<open>img\<close>) has children.
\<close>

theorem parse_document_wf: "wf_nodes (parse_document ts)"
  by (simp add: parse_document_def build_wf)

end
