(* ===== verification/Selector.thy ===== *)
theory Selector
  imports Prelude
begin

text \<open>
  Selectors, the \<open>CompiledSelector\<close> of the spec. Both libraries the sources
  call compile a selector string at run time and \<open>unwrap\<close> the result:
  \<open>Selector::parse("img[src]").unwrap()\<close> in src/lib/images-extractor and the
  \<open>element!\<close> macro of \<open>lol_html\<close> in src/lib/html-utils. Only the three
  predicate shapes of the spec are modelled: tag-name equality, attribute
  presence and attribute-value equality, combined by conjunction in a compound
  selector such as \<open>img[src]\<close>. \<open>parse_selector\<close> is the compiler for that
  subset (an optional tag name followed by bracketed attribute tests, a value in
  double quotes); \<open>None\<close> is the \<open>SelectorSyntaxError\<close> that \<open>unwrap\<close>
  turns into a panic. Matching reads the first attribute of a name, as the
  tokenizer keeps only the first of duplicated attributes.
\<close>

datatype simple_sel = TagIs string | HasAttr string | AttrEq string string

type_synonym selector = "simple_sel list"

fun simple_matches :: "string \<Rightarrow> attrs \<Rightarrow> simple_sel \<Rightarrow> bool" where
  "simple_matches t a (TagIs t') \<longleftrightarrow> t = t'"
| "simple_matches t a (HasAttr n) \<longleftrightarrow> map_of a n \<noteq> None"
| "simple_matches t a (AttrEq n v) \<longleftrightarrow> map_of a n = Some v"

definition sel_matches :: "selector \<Rightarrow> string \<Rightarrow> attrs \<Rightarrow> bool" where
  "sel_matches s t a \<longleftrightarrow> list_all (simple_matches t a) s"

definition is_ident_char :: "char \<Rightarrow> bool" where
  "is_ident_char c \<longleftrightarrow>
     c \<in> set ''abcdefghijklmnopqrstuvwxyzABCDEFGHIJKLMNOPQRSTUVWXYZ0123456789-_''"

fun parse_quoted :: "string \<Rightarrow> (string \<times> string) option" where
  "parse_quoted [] = None"
| "parse_quoted (c # cs) =
     (if c = CHR 0x22 then Some ([], cs) else map_option (\<lambda>(v, r). (c # v, r)) (parse_quoted cs))"

lemma parse_quoted_length: "parse_quoted s = Some (v, r) \<Longrightarrow> length r < length s"
  by (induction s arbitrary: v r) (auto split: if_splits)

function parse_attr_sels :: "string \<Rightarrow> selector option" where
  "parse_attr_sels [] = Some []"
| "parse_attr_sels (c # cs) =
     (if c \<noteq> CHR ''['' then None
      else
        (let n = takeWhile is_ident_char cs; r = dropWhile is_ident_char cs in
         if n = [] then None
         else
           (case r of
              [] \<Rightarrow> None
            | d # r' \<Rightarrow>
                if d = CHR '']'' then map_option (Cons (HasAttr n)) (parse_attr_sels r')
                else if d = CHR ''='' then
                  (case r' of
                     [] \<Rightarrow> None
                   | q # r'' \<Rightarrow>
                       if q \<noteq> CHR 0x22 then None
                       else
                         (case parse_quoted r'' of
                            None \<Rightarrow> None
                          | Some (v, rest) \<Rightarrow>
                              (case rest of
                                 [] \<Rightarrow> None
                               | e # rest' \<Rightarrow>
                                   if e = CHR '']'' then map_option (Cons (AttrEq n v)) (parse_attr_sels rest')
                                   else None)))
                else None)))"
  by pat_completeness auto
termination
proof (relation "measure length")
  fix c cs n r d r' q r'' x v rest e rest'
  assume "r = dropWhile is_ident_char cs" "r = d # r'" "r' = q # r''"
    and "parse_quoted r'' = Some x" "(v, rest) = x" "rest = e # rest'"
  then have "length rest < length r''" by (auto dest: parse_quoted_length)
  moreover have "length r \<le> length cs" using \<open>r = dropWhile is_ident_char cs\<close> by (simp add: length_dropWhile_le)
  ultimately show "(rest', c # cs) \<in> measure length" using \<open>r = d # r'\<close> \<open>r' = q # r''\<close> \<open>rest = e # rest'\<close> by simp
next
  fix c cs n r d r'
  assume "r = dropWhile is_ident_char cs" "r = d # r'"
  then have "length r \<le> length cs" by (simp add: length_dropWhile_le)
  then show "(r', c # cs) \<in> measure length" using \<open>r = d # r'\<close> by simp
qed simp

definition parse_selector :: "string \<Rightarrow> selector option" where
  "parse_selector s =
     (let t = takeWhile is_ident_char s; r = dropWhile is_ident_char s in
      case parse_attr_sels r of
        None \<Rightarrow> None
      | Some as \<Rightarrow> (let sel = (if t = [] then [] else [TagIs t]) @ as in if sel = [] then None else Some sel))"

end
