(* ===== verification/Rewriter.thy ===== *)
theory Rewriter
  imports Markup Selector
begin

text \<open>
  The streaming rewriter of \<open>lol_html\<close> that \<open>single_slide\<close> drives through
  \<open>rewrite_str\<close> (src/lib/html-utils/src/lib.rs, lines 10-34). An element
  handler sees the element of a start tag (\<open>element\<close>: its attributes, in
  source order, and whether it is removed) and returns \<open>Ok\<close> with the element
  changed or an error. At each start tag every handler whose selector matches the
  start tag as it was read runs, in the order they are registered, each on the
  element left by the one before. \<open>remove\<close> drops the element with its
  whole content. The stream machine keeps the stack of open elements, each
  marked removed or not: an end tag closes the innermost open element of its
  name (with those opened inside it), so removal ends exactly at the end tag
  that matches the removed element, however deeply elements of the same name
  nest inside it and whether or not inner elements were closed; an end tag
  whose element is not open closes nothing and is emitted unless it is inside
  a removed element. Handlers still run on the start tags inside a removed
  element, so their errors still abort. \<open>rewrite_tokens\<close> is the one-pass
  machine over the token stream; \<open>rw_nodes\<close> is the same rewrite stated on
  the document tree, and \<open>rewrite_str_serialised\<close> proves that the stream
  machine implements it on every well-formed tree. On any token stream the
  machine only deletes tokens and rewrites attributes. The errors
  \<open>lol_html\<close> raises by itself (\<open>RewritingError::ParsingAmbiguity\<close>, memory
  limits) are not modelled: the only errors are the handlers'.
\<close>

record element =
  el_attrs :: attrs
  el_removed :: bool

definition mk_element :: "attrs \<Rightarrow> element" where
  "mk_element a = \<lparr>el_attrs = a, el_removed = False\<rparr>"

definition get_attribute :: "element \<Rightarrow> string \<Rightarrow> string option" where
  "get_attribute el n = map_of (el_attrs el) n"

definition remove :: "element \<Rightarrow> element" where
  "remove el = el\<lparr>el_removed := True\<rparr>"

text \<open>Setting an attribute overwrites the first attribute of that name in place,
  or appends it when there is none.\<close>

fun set_attr :: "attrs \<Rightarrow> string \<Rightarrow> string \<Rightarrow> attrs" where
  "set_attr [] n v = [(n, v)]"
| "set_attr ((k, w) # as) n v = (if k = n then (k, v) # as else (k, w) # set_attr as n v)"

lemma map_of_set_attr [simp]: "map_of (set_attr as n v) = (map_of as)(n \<mapsto> v)"
  by (induction as n v rule: set_attr.induct) (auto simp: fun_upd_twist)

lemma set_attr_idem [simp]: "set_attr (set_attr as n v) n v = set_attr as n v"
  by (induction as n v rule: set_attr.induct) auto

lemma set_attr_keys:
  "map fst (set_attr as n v) = (if n \<in> fst ` set as then map fst as else map fst as @ [n])"
  by (induction as n v rule: set_attr.induct) auto

datatype attr_name_error = EmptyName | ForbiddenCharacter char

definition forbidden_name_chars :: "char list" where
  "forbidden_name_chars = [CHR '' '', CHR 0x0A, CHR 0x0D, CHR 0x09, CHR 0x0C, CHR ''/'', CHR ''>'', CHR ''='']"

definition set_attribute :: "element \<Rightarrow> string \<Rightarrow> string \<Rightarrow> attr_name_error + element" where
  "set_attribute el n v =
     (if n = [] then Inl EmptyName
      else (case find (\<lambda>c. c \<in> set forbidden_name_chars) n of
              Some c \<Rightarrow> Inl (ForbiddenCharacter c)
            | None \<Rightarrow> Inr (el\<lparr>el_attrs := set_attr (el_attrs el) n v\<rparr>)))"

lemma set_attribute_valid:
  "n \<noteq> [] \<Longrightarrow> list_all (\<lambda>c. c \<notin> set forbidden_name_chars) n \<Longrightarrow>
     set_attribute el n v = Inr (el\<lparr>el_attrs := set_attr (el_attrs el) n v\<rparr>)"
proof -
  assume "n \<noteq> []" and "list_all (\<lambda>c. c \<notin> set forbidden_name_chars) n"
  moreover from this have "find (\<lambda>c. c \<in> set forbidden_name_chars) n = None"
    by (simp add: find_None_iff list_all_iff)
  ultimately show ?thesis by (simp add: set_attribute_def)
qed

type_synonym 'e handler = "element \<Rightarrow> 'e + element"
type_synonym 'e handlers = "(selector \<times> 'e handler) list"

fun run_handlers :: "'e handlers \<Rightarrow> string \<Rightarrow> attrs \<Rightarrow> element \<Rightarrow> 'e + element" where
  "run_handlers [] t a el = Inr el"
| "run_handlers ((s, h) # hs) t a el =
     (if sel_matches s t a then sbind (h el) (run_handlers hs t a) else run_handlers hs t a el)"

subsection \<open>The stream machine\<close>

text \<open>
  The machine keeps the stack of open elements, innermost first, each with a
  flag telling whether a handler removed it. Tokens are emitted while no open
  element is removed. An end tag closes the innermost open element of its name
  together with every element opened inside it, so a removal ends at the removed
  element's own end tag, or at the end tag of an element that encloses it; an end
  tag whose name is not open closes nothing. Void elements are never opened.
\<close>

type_synonym open_stack = "(string \<times> bool) list"

definition removing :: "open_stack \<Rightarrow> bool" where
  "removing st \<longleftrightarrow> list_ex snd st"

definition push_open :: "string \<Rightarrow> bool \<Rightarrow> open_stack \<Rightarrow> open_stack" where
  "push_open t r st = (if is_void t then st else (t, r) # st)"

text \<open>What an end tag does: whether it is emitted, and the stack after it.\<close>

definition end_tag :: "string \<Rightarrow> open_stack \<Rightarrow> bool \<times> open_stack" where
  "end_tag t st =
     (if t \<in> set (map fst st) then
        (let m = dropWhile (\<lambda>p. fst p \<noteq> t) st in (\<not> removing m, tl m))
      else (\<not> removing st, st))"

fun rewrite_tokens :: "'e handlers \<Rightarrow> open_stack \<Rightarrow> token list \<Rightarrow> 'e + token list" where
  "rewrite_tokens hs st [] = Inr []"
| "rewrite_tokens hs st (StartTag t a # ts) =
     sbind (run_handlers hs t a (mk_element a)) (\<lambda>el.
       if removing st then rewrite_tokens hs (push_open t False st) ts
       else if el_removed el then rewrite_tokens hs (push_open t True st) ts
       else sbind (rewrite_tokens hs (push_open t False st) ts) (\<lambda>r. Inr (StartTag t (el_attrs el) # r)))"
| "rewrite_tokens hs st (EndTag t # ts) =
     (case end_tag t st of
        (emit, st') \<Rightarrow>
          if emit then sbind (rewrite_tokens hs st' ts) (\<lambda>r. Inr (EndTag t # r))
          else rewrite_tokens hs st' ts)"
| "rewrite_tokens hs st (TextTok s # ts) =
     (if removing st then rewrite_tokens hs st ts
      else sbind (rewrite_tokens hs st ts) (\<lambda>r. Inr (TextTok s # r)))"

definition rewrite_str :: "'e handlers \<Rightarrow> token list \<Rightarrow> 'e + token list" where
  "rewrite_str hs html = rewrite_tokens hs [] html"

declare removing_def [model_simps] push_open_def [model_simps] end_tag_def [model_simps]

lemma removing_simps [simp]:
  "\<not> removing []"
  "removing ((t, r) # st) \<longleftrightarrow> r \<or> removing st"
  by (simp_all add: removing_def)

lemma removing_push [simp]: "removing (push_open t r st) \<longleftrightarrow> (r \<and> \<not> is_void t) \<or> removing st"
  by (auto simp: push_open_def)

lemma end_tag_top [simp]: "end_tag t ((t, r) # st) = (\<not> (r \<or> removing st), st)"
  by (simp add: end_tag_def)

lemma removing_dropWhile: "removing (dropWhile P st) \<Longrightarrow> removing st"
  by (induction st) (auto split: if_splits)

lemma removing_tl: "removing (tl st) \<Longrightarrow> removing st"
  by (cases st) auto

lemma end_tag_clean: "\<not> removing st \<Longrightarrow> fst (end_tag t st) \<and> \<not> removing (snd (end_tag t st))"
  by (auto simp: end_tag_def Let_def dest: removing_dropWhile removing_tl)

subsection \<open>The same rewrite on the tree\<close>

fun scan_node :: "'e handlers \<Rightarrow> node \<Rightarrow> 'e option"
  and scan_nodes :: "'e handlers \<Rightarrow> node list \<Rightarrow> 'e option" where
  "scan_node hs (Element t a cs) =
     (case run_handlers hs t a (mk_element a) of Inl e \<Rightarrow> Some e | Inr _ \<Rightarrow> scan_nodes hs cs)"
| "scan_node hs (Text s) = None"
| "scan_nodes hs [] = None"
| "scan_nodes hs (n # ns) = (case scan_node hs n of Some e \<Rightarrow> Some e | None \<Rightarrow> scan_nodes hs ns)"

fun rw_node :: "'e handlers \<Rightarrow> node \<Rightarrow> 'e + node list"
  and rw_nodes :: "'e handlers \<Rightarrow> node list \<Rightarrow> 'e + node list" where
  "rw_node hs (Element t a cs) =
     sbind (run_handlers hs t a (mk_element a)) (\<lambda>el.
       if el_removed el then (case scan_nodes hs cs of Some e \<Rightarrow> Inl e | None \<Rightarrow> Inr [])
       else sbind (rw_nodes hs cs) (\<lambda>cs'. Inr [Element t (el_attrs el) cs']))"
| "rw_node hs (Text s) = Inr [Text s]"
| "rw_nodes hs [] = Inr []"
| "rw_nodes hs (n # ns) = sbind (rw_node hs n) (\<lambda>xs. sbind (rw_nodes hs ns) (\<lambda>ys. Inr (xs @ ys)))"

lemma rw_wf:
  "rw_node hs n = Inr ns' \<Longrightarrow> wf_node n \<Longrightarrow> wf_nodes ns'"
  "rw_nodes hs ns = Inr ns' \<Longrightarrow> wf_nodes ns \<Longrightarrow> wf_nodes ns'"
proof (induction n and ns arbitrary: ns' and ns' rule: elems_node_elems_nodes.induct)
  case (1 t a cs)
  then show ?case
    by (cases "run_handlers hs t a (mk_element a)";
        cases "rw_nodes hs cs"; auto split: if_splits option.splits)
next
  case (4 n ns)
  then show ?case by (cases "rw_node hs n"; cases "rw_nodes hs ns") auto
qed auto

lemma rw_nodes_member:
  "rw_nodes hs ns = Inr ns' \<Longrightarrow> x \<in> set ns \<Longrightarrow> \<exists>xs. rw_node hs x = Inr xs \<and> set xs \<subseteq> set ns'"
proof (induction ns arbitrary: ns')
  case (Cons n ns)
  then obtain xs ys where "rw_node hs n = Inr xs" "rw_nodes hs ns = Inr ys" "ns' = xs @ ys"
    by (cases "rw_node hs n"; cases "rw_nodes hs ns") auto
  with Cons show ?case by auto
qed simp

subsection \<open>The stream machine implements the tree rewrite\<close>

text \<open>Inside a removed element the printing of a well-formed subtree is
  consumed whole: its elements are opened and closed again on top of the stack,
  its handlers run, nothing is emitted.\<close>

lemma skip_serialise:
  "wf_node n \<Longrightarrow> removing st \<Longrightarrow> rewrite_tokens hs st (serialise_node n @ rest) =
     (case scan_node hs n of Some e \<Rightarrow> Inl e | None \<Rightarrow> rewrite_tokens hs st rest)"
  "wf_nodes ns \<Longrightarrow> removing st \<Longrightarrow> rewrite_tokens hs st (serialise_nodes ns @ rest) =
     (case scan_nodes hs ns of Some e \<Rightarrow> Inl e | None \<Rightarrow> rewrite_tokens hs st rest)"
proof (induction n and ns arbitrary: st rest and st rest rule: serialise_node_serialise_nodes.induct)
  case (1 t a cs)
  show ?case
  proof (cases "run_handlers hs t a (mk_element a)")
    case (Inr el)
    show ?thesis
    proof (cases "is_void t")
      case True
      with Inr "1.prems" show ?thesis by (simp add: push_open_def)
    next
      case False
      with Inr "1.prems" "1.IH" [of "(t, False) # st" "EndTag t # rest"] show ?thesis
        by (simp add: push_open_def split: option.split)
    qed
  qed simp
next
  case (4 n ns)
  then show ?case by (auto split: option.split)
qed simp_all

lemma rewrite_serialise_gen:
  "wf_node n \<Longrightarrow> \<not> removing st \<Longrightarrow> rewrite_tokens hs st (serialise_node n @ rest) =
     sbind (rw_node hs n) (\<lambda>ns'. sbind (rewrite_tokens hs st rest) (\<lambda>r. Inr (serialise_nodes ns' @ r)))"
  "wf_nodes ns \<Longrightarrow> \<not> removing st \<Longrightarrow> rewrite_tokens hs st (serialise_nodes ns @ rest) =
     sbind (rw_nodes hs ns) (\<lambda>ns'. sbind (rewrite_tokens hs st rest) (\<lambda>r. Inr (serialise_nodes ns' @ r)))"
proof (induction n and ns arbitrary: st rest and st rest rule: serialise_node_serialise_nodes.induct)
  case (1 t a cs)
  show ?case
  proof (cases "run_handlers hs t a (mk_element a)")
    case (Inr el)
    show ?thesis
    proof (cases "el_removed el")
      case True
      show ?thesis
      proof (cases "is_void t")
        case True
        with Inr \<open>el_removed el\<close> "1.prems" show ?thesis
          by (cases "rewrite_tokens hs st rest") (simp_all add: push_open_def)
      next
        case False
        with Inr \<open>el_removed el\<close> "1.prems" show ?thesis
          by (auto simp: push_open_def skip_serialise split: option.split)
      qed
    next
      case False
      show ?thesis
      proof (cases "is_void t")
        case True
        with Inr False "1.prems" show ?thesis
          by (cases "rewrite_tokens hs st rest") (simp_all add: push_open_def)
      next
        case nv: False
        with Inr False "1.prems" "1.IH" [of "(t, False) # st" "EndTag t # rest"] show ?thesis
          by (cases "rw_nodes hs cs"; cases "rewrite_tokens hs st rest") (simp_all add: push_open_def)
      qed
    qed
  qed simp
next
  case (4 n ns)
  then show ?case
    by (cases "rw_node hs n"; cases "rw_nodes hs ns"; cases "rewrite_tokens hs st rest") auto
qed simp_all

lemma rewrite_str_serialised:
  "wf_nodes f \<Longrightarrow> rewrite_str hs (serialise_nodes f) = sbind (rw_nodes hs f) (\<lambda>f'. Inr (serialise_nodes f'))"
  using rewrite_serialise_gen(2) [of f "[]" hs "[]"] by (simp add: rewrite_str_def)

text \<open>
  C8. For every well-formed document tree and every handler list, the
  one-pass stream rewrite of the tree's token stream equals the tree rewrite
  printed back: removal drops exactly the removed element's subtree however
  deeply same-named elements nest inside it, and errors are the first failing
  handler in document order.
\<close>

theorem rewrite_serialise:
  "wf_nodes f \<Longrightarrow> rewrite_str hs (serialise_nodes f) = sbind (rw_nodes hs f) (\<lambda>f'. Inr (serialise_nodes f'))"
  by (rule rewrite_str_serialised)

theorem rewrite_serialise_witness:
  "wf_nodes [Element ''div'' [] [Element ''div'' [(''x'', ''1'')] [Element ''div'' [] [Text ''a'']], Text ''b'']] \<and>
   rewrite_str ([([HasAttr ''x''], \<lambda>el. Inr (remove el))] :: unit handlers) (serialise_nodes [Element ''div'' [] [Element ''div'' [(''x'', ''1'')] [Element ''div'' [] [Text ''a'']], Text ''b'']]) =
   sbind (rw_nodes [([HasAttr ''x''], \<lambda>el. Inr (remove el))] [Element ''div'' [] [Element ''div'' [(''x'', ''1'')] [Element ''div'' [] [Text ''a'']], Text ''b'']]) (\<lambda>f'. Inr (serialise_nodes f'))"
proof -
  have wf: "wf_nodes [Element ''div'' [] [Element ''div'' [(''x'', ''1'')] [Element ''div'' [] [Text ''a'']], Text ''b'']]" by (simp add: model_simps)
  show ?thesis using wf rewrite_serialise [OF wf, of "[([HasAttr ''x''], \<lambda>el. Inr (remove el))] :: unit handlers"] by simp
qed

subsection \<open>What the stream machine emits\<close>

text \<open>The rewrite fails exactly when a handler fails on some start tag of the
  input, inside a removed element or not.\<close>

lemma rewrite_tokens_isl:
  "isl (rewrite_tokens hs st ts) \<longleftrightarrow>
     (\<exists>t a. StartTag t a \<in> set ts \<and> isl (run_handlers hs t a (mk_element a)))"
proof (induction hs st ts rule: rewrite_tokens.induct)
  case (2 hs st t a ts)
  show ?case
  proof (cases "run_handlers hs t a (mk_element a)")
    case (Inr el)
    show ?thesis
    proof (cases "removing st")
      case True
      with Inr "2.IH"(1) show ?thesis by auto
    next
      case False
      show ?thesis
      proof (cases "el_removed el")
        case True
        with False Inr "2.IH"(2) [of el] show ?thesis by auto
      next
        case nr: False
        with False Inr "2.IH"(3) [of el] show ?thesis
          by (cases "rewrite_tokens hs (push_open t False st) ts") auto
      qed
    qed
  qed force
next
  case (3 hs st t ts)
  then show ?case
    by (cases "end_tag t st"; cases "rewrite_tokens hs (snd (end_tag t st)) ts") auto
next
  case (4 hs st s ts)
  then show ?case by (cases "rewrite_tokens hs st ts") auto
qed simp

text \<open>Every start tag of the output is a start tag of the input whose handlers
  succeeded and left the element in place, carrying the attributes the handlers
  left.\<close>

lemma rewrite_tokens_StartTag:
  "rewrite_tokens hs st ts = Inr out \<Longrightarrow> StartTag t a' \<in> set out \<Longrightarrow>
     \<exists>a el. StartTag t a \<in> set ts \<and> run_handlers hs t a (mk_element a) = Inr el \<and>
       \<not> el_removed el \<and> a' = el_attrs el"
proof (induction hs st ts arbitrary: out rule: rewrite_tokens.induct)
  case (2 hs st t0 a ts)
  from "2.prems"(1) obtain el where el: "run_handlers hs t0 a (mk_element a) = Inr el"
    by (cases "run_handlers hs t0 a (mk_element a)") auto
  show ?case
  proof (cases "removing st")
    case True
    with "2.prems" el "2.IH"(1) [of out] show ?thesis by fastforce
  next
    case rm: False
    show ?thesis
    proof (cases "el_removed el")
      case True
      with rm "2.prems" el "2.IH"(2) [of el out] show ?thesis by fastforce
    next
      case False
      with rm "2.prems"(1) el obtain r where r: "rewrite_tokens hs (push_open t0 False st) ts = Inr r"
        and out: "out = StartTag t0 (el_attrs el) # r" by auto
      show ?thesis
      proof (cases "StartTag t a' \<in> set r")
        case True
        with "2.IH"(3) [of el r] rm False r show ?thesis by fastforce
      next
        case notin: False
        with out "2.prems"(2) have "t = t0" "a' = el_attrs el" by auto
        with el False show ?thesis by auto
      qed
    qed
  qed
next
  case (3 hs st t0 ts)
  then show ?case by (cases "end_tag t0 st") (fastforce split: if_splits)
next
  case (4 hs st s ts)
  then show ?case by (fastforce split: if_splits)
qed simp

text \<open>Handlers that leave every start tag of the stream as it is make the rewrite
  the identity, from any stack with no removed element.\<close>

lemma rewrite_tokens_identity:
  "list_all (\<lambda>tok. case tok of StartTag t a \<Rightarrow> run_handlers hs t a (mk_element a) = Inr (mk_element a)
                              | _ \<Rightarrow> True) ts \<Longrightarrow>
     \<not> removing st \<Longrightarrow> rewrite_tokens hs st ts = Inr ts"
proof (induction ts arbitrary: st)
  case (Cons tok ts)
  show ?case
  proof (cases tok)
    case (EndTag t)
    with Cons end_tag_clean [OF Cons.prems(2), of t] show ?thesis
      by (cases "end_tag t st") auto
  qed (use Cons in \<open>auto simp: mk_element_def\<close>)
qed simp

subsection \<open>The stream machine on arbitrary token streams\<close>

text \<open>The shape of a token with the attributes of a start tag dropped: what a
  handler cannot change short of removing the element.\<close>

fun tag_shape :: "token \<Rightarrow> token" where
  "tag_shape (StartTag t a) = StartTag t []"
| "tag_shape tok = tok"

text \<open>The machine only deletes tokens and rewrites attributes: it never invents,
  duplicates or reorders a token.\<close>

lemma rewrite_tokens_subseq:
  "rewrite_tokens hs st ts = Inr out \<Longrightarrow> subseq (map tag_shape out) (map tag_shape ts)"
proof (induction hs st ts arbitrary: out rule: rewrite_tokens.induct)
  case (2 hs st t a ts)
  then show ?case
    by (cases "run_handlers hs t a (mk_element a)") (auto split: if_splits)
next
  case (3 hs st t ts)
  then show ?case by (cases "end_tag t st") (auto split: if_splits)
next
  case (4 hs st s ts)
  then show ?case by (auto split: if_splits)
qed simp

end
