(* ===== verification/U32Parse.thy ===== *)
theory U32Parse
  imports Prelude
begin

text \<open>
  \<open>value.parse::<u32>()\<close>, which \<open>single_slide\<close> calls on every slide
  container's \<open>data-freya-index\<close> (src/lib/html-utils/src/lib.rs, line 16).
  Rust's \<open>u32::from_str\<close> is \<open>from_str_radix(s, 10)\<close>: the empty string is
  the error \<open>Empty\<close>; a lone sign is \<open>InvalidDigit\<close>; one leading \<open>+\<close> is
  skipped (a \<open>-\<close> is not, for an unsigned type, so it fails as a digit); then
  each character is checked to be a digit and folded in with \<open>checked_mul\<close>
  and \<open>checked_add\<close>, the digit check first and the overflow checks after it,
  so \<open>PosOverflow\<close> is raised at the first digit that makes the value leave
  32 bits. For at most eight digits (\<open>can_not_overflow\<close>) the library runs
  the loop without the overflow checks, with wrapping arithmetic
  (\<open>parse_digits_unchecked\<close>); \<open>parse_digits_unchecked_eq\<close> shows that
  this changes no result while the value cannot leave 32 bits, so that only
  literals of ten digits or more can overflow.
  The main lemmas: the parser agrees with the mathematical reading of a decimal
  literal (\<open>parse_u32_Inr_eq\<close>) and reading back the decimal printing of a
  \<open>u32\<close> (\<open>nat_to_dec\<close>) gives it back.
\<close>

datatype int_error_kind = Empty | InvalidDigit | PosOverflow

definition to_digit :: "char \<Rightarrow> nat option" where
  "to_digit c = (let n = of_char c :: nat in if 48 \<le> n \<and> n < 58 then Some (n - 48) else None)"

definition checked_mul_u32 :: "u32 \<Rightarrow> u32 \<Rightarrow> u32 option" where
  "checked_mul_u32 a b = (if unat a * unat b < 2 ^ 32 then Some (a * b) else None)"

definition checked_add_u32 :: "u32 \<Rightarrow> u32 \<Rightarrow> u32 option" where
  "checked_add_u32 a b = (if unat a + unat b < 2 ^ 32 then Some (a + b) else None)"

fun parse_digits :: "u32 \<Rightarrow> string \<Rightarrow> int_error_kind + u32" where
  "parse_digits acc [] = Inr acc"
| "parse_digits acc (c # cs) =
     (let mul = checked_mul_u32 acc 10 in
      case to_digit c of
        None \<Rightarrow> Inl InvalidDigit
      | Some x \<Rightarrow>
          (case mul of
             None \<Rightarrow> Inl PosOverflow
           | Some m \<Rightarrow>
               (case checked_add_u32 m (of_nat x) of
                  None \<Rightarrow> Inl PosOverflow
                | Some r \<Rightarrow> parse_digits r cs)))"

text \<open>The fast path: when the digits are too few to overflow, the library runs
  the same loop with wrapping arithmetic and no overflow checks; a non-digit is
  still \<open>InvalidDigit\<close>.\<close>

fun parse_digits_unchecked :: "u32 \<Rightarrow> string \<Rightarrow> int_error_kind + u32" where
  "parse_digits_unchecked acc [] = Inr acc"
| "parse_digits_unchecked acc (c # cs) =
     (let r = acc * 10 in
      case to_digit c of
        None \<Rightarrow> Inl InvalidDigit
      | Some x \<Rightarrow> parse_digits_unchecked (r + of_nat x) cs)"

text \<open>\<open>can_not_overflow\<close>: radix 10 is at most 16 and a \<open>u32\<close> has four
  bytes, so up to \<open>2 * 4 = 8\<close> digits take the fast path.\<close>

definition can_not_overflow :: "string \<Rightarrow> bool" where
  "can_not_overflow ds \<longleftrightarrow> length ds \<le> 2 * 4"

definition parse_u32 :: "string \<Rightarrow> int_error_kind + u32" where
  "parse_u32 s =
     (if s = [] then Inl Empty
      else if s = ''+'' \<or> s = ''-'' then Inl InvalidDigit
      else
        let ds = (if hd s = CHR ''+'' then tl s else s) in
        if can_not_overflow ds then parse_digits_unchecked 0 ds else parse_digits 0 ds)"

declare parse_u32_def [model_simps] can_not_overflow_def [model_simps] to_digit_def [model_simps] checked_mul_u32_def [model_simps]
  checked_add_u32_def [model_simps]

subsection \<open>The mathematical reading of a decimal literal\<close>

definition dec_step :: "nat \<Rightarrow> char \<Rightarrow> nat" where
  "dec_step n c = 10 * n + (of_char c - 48)"

definition dec_value :: "string \<Rightarrow> nat" where
  "dec_value ds = foldl dec_step 0 ds"

definition is_dec_digit :: "char \<Rightarrow> bool" where
  "is_dec_digit c \<longleftrightarrow> to_digit c \<noteq> None"

text \<open>The digits after the optional sign, as \<open>from_str_radix\<close> splits them.\<close>

definition unsigned_body :: "string \<Rightarrow> string" where
  "unsigned_body s = (if s \<noteq> [] \<and> hd s = CHR ''+'' then tl s else s)"

definition valid_u32_literal :: "string \<Rightarrow> bool" where
  "valid_u32_literal s \<longleftrightarrow>
     (let ds = unsigned_body s in ds \<noteq> [] \<and> list_all is_dec_digit ds \<and> dec_value ds < 2 ^ 32)"

text \<open>Decimal printing of a number, as Rust's \<open>Display\<close> writes a \<open>u32\<close>.\<close>

fun nat_to_dec :: "nat \<Rightarrow> string" where
  "nat_to_dec n =
     (if n < 10 then [char_of (48 + n)] else nat_to_dec (n div 10) @ [char_of (48 + n mod 10)])"

declare nat_to_dec.simps [simp del]

subsection \<open>The parser computes the reading\<close>

lemma dec_step_ge: "n \<le> foldl dec_step n ds"
proof (induction ds arbitrary: n)
  case Nil then show ?case by simp
next
  case (Cons c ds)
  have "n \<le> dec_step n c" by (simp add: dec_step_def)
  also have "\<dots> \<le> foldl dec_step (dec_step n c) ds" by (rule Cons.IH)
  finally show ?case by simp
qed

lemma parse_digits_Inr_iff:
  "parse_digits acc ds = Inr w \<longleftrightarrow>
     list_all is_dec_digit ds \<and> foldl dec_step (unat acc) ds < 2 ^ 32 \<and>
     w = of_nat (foldl dec_step (unat acc) ds)"
proof (induction ds arbitrary: acc)
  case Nil
  show ?case using unsigned_less [of acc, where ?'a = nat] by auto
next
  case (Cons c ds)
  show ?case
  proof (cases "to_digit c")
    case None
    then show ?thesis by (simp add: is_dec_digit_def)
  next
    case (Some x)
    then have x: "is_dec_digit c" "x = of_char c - 48" "x < 10"
      by (auto simp: is_dec_digit_def to_digit_def Let_def split: if_splits)
    have ux: "unat (of_nat x :: u32) = x" using x(3) by (simp add: unat_of_nat)
    let ?n = "dec_step (unat acc) c"
    have n: "?n = unat acc * 10 + x" using x by (simp add: dec_step_def)
    show ?thesis
    proof (cases "?n < 2 ^ 32")
      case True
      then have ok: "unat acc * 10 < 2 ^ 32" "unat acc * 10 + x < 2 ^ 32" using n by linarith+
      have "unat (acc * 10 + of_nat x :: u32) = ?n"
        using ok x(3) n by (simp add: unat_word_ariths unat_of_nat)
      with Some ok Cons.IH [of "acc * 10 + of_nat x"] x show ?thesis
        by (simp add: checked_mul_u32_def checked_add_u32_def unat_word_ariths unat_of_nat)
    next
      case False
      have "?n \<le> foldl dec_step ?n ds" by (rule dec_step_ge)
      with False have big: "\<not> foldl dec_step ?n ds < 2 ^ 32" by linarith
      have "parse_digits acc (c # ds) \<noteq> Inr w"
      proof
        assume "parse_digits acc (c # ds) = Inr w"
        with Some have "unat acc * 10 < 2 ^ 32" "unat acc * 10 + x < 2 ^ 32"
          by (auto simp: checked_mul_u32_def checked_add_u32_def unat_word_ariths ux
              split: if_splits)
        with False n show False by linarith
      qed
      with big show ?thesis by simp
    qed
  qed
qed

subsection \<open>The fast path agrees with the checked loop\<close>

text \<open>While the accumulator times \<open>10\<close> to the number of digits left stays
  within 32 bits, no check of the checked loop can fire, so both loops compute
  the same result and raise the same error.\<close>

lemma parse_digits_unchecked_eq:
  "(unat acc + 1) * 10 ^ length ds \<le> 2 ^ 32 \<Longrightarrow> parse_digits_unchecked acc ds = parse_digits acc ds"
proof (induction ds arbitrary: acc)
  case (Cons c ds)
  show ?case
  proof (cases "to_digit c")
    case (Some x)
    then have x: "x < 10" by (auto simp: to_digit_def Let_def split: if_splits)
    let ?k = "10 ^ length ds :: nat"
    have k: "1 \<le> ?k" by simp
    have "(unat acc + 1) * 10 ^ length (c # ds) = (unat acc + 1) * 10 * ?k" by (simp add: algebra_simps)
    with Cons.prems have big: "(unat acc + 1) * 10 * ?k \<le> 2 ^ 32" by linarith
    then have "(unat acc + 1) * 10 \<le> 2 ^ 32" using k
      by (metis le_trans mult_le_mono2 nat_mult_1_right)
    then have "unat acc * 10 + 10 \<le> 2 ^ 32" by (simp add: distrib_right)
    then have ok: "unat acc * 10 < 2 ^ 32" "unat acc * 10 + x < 2 ^ 32" using x by linarith+
    have u: "unat (acc * 10 + of_nat x :: u32) = unat acc * 10 + x"
      using ok x by (simp add: unat_word_ariths unat_of_nat)
    have "(unat acc * 10 + x + 1) * ?k \<le> (unat acc + 1) * 10 * ?k"
      using x by (intro mult_le_mono1) (simp add: distrib_right)
    with big have "(unat (acc * 10 + of_nat x :: u32) + 1) * ?k \<le> 2 ^ 32" by (simp add: u)
    with Some ok Cons.IH show ?thesis
      by (simp add: checked_mul_u32_def checked_add_u32_def unat_word_ariths unat_of_nat x)
  qed simp
qed simp

lemma digits_bound:
  "length ds \<le> 9 \<Longrightarrow> (unat (0::u32) + 1) * 10 ^ length ds \<le> 2 ^ 32"
proof -
  assume "length ds \<le> 9"
  then have "(10::nat) ^ length ds \<le> 10 ^ 9" by (intro power_increasing) simp_all
  then show ?thesis by simp
qed

lemma parse_u32_checked:
  "parse_u32 s =
     (if s = [] then Inl Empty
      else if s = ''+'' \<or> s = ''-'' then Inl InvalidDigit
      else parse_digits 0 (unsigned_body s))"
proof -
  have "parse_digits_unchecked 0 ds = parse_digits 0 ds" if "can_not_overflow ds" for ds
    using that by (intro parse_digits_unchecked_eq digits_bound) (simp add: can_not_overflow_def)
  then show ?thesis by (simp add: parse_u32_def unsigned_body_def Let_def)
qed

lemma parse_u32_Inr_eq:
  "parse_u32 s = Inr w \<longleftrightarrow> valid_u32_literal s \<and> w = of_nat (dec_value (unsigned_body s))"
proof -
  have minus: "\<not> is_dec_digit CHR ''-''" by (simp add: is_dec_digit_def to_digit_def)
  show ?thesis
  proof (cases "s = [] \<or> s = ''+'' \<or> s = ''-''")
    case True
    with minus show ?thesis
      by (auto simp: parse_u32_checked valid_u32_literal_def unsigned_body_def)
  next
    case False
    then have "parse_u32 s = parse_digits 0 (unsigned_body s)" and "unsigned_body s \<noteq> []"
      by (auto simp: parse_u32_checked unsigned_body_def neq_Nil_conv)
    then show ?thesis
      by (simp add: parse_digits_Inr_iff valid_u32_literal_def dec_value_def Let_def)
  qed
qed

text \<open>
  C13. \<open>parse::<u32>\<close> succeeds exactly on the literals that are one optional
  \<open>+\<close> followed by a non-empty run of decimal digits whose value is below
  \<open>2^32\<close>, and then returns that value.
\<close>

theorem parse_u32_Inr_iff:
  "parse_u32 s = Inr w \<longleftrightarrow> valid_u32_literal s \<and> w = of_nat (dec_value (unsigned_body s))"
  by (rule parse_u32_Inr_eq)

lemma nat_to_dec_props:
  "nat_to_dec n \<noteq> [] \<and> list_all is_dec_digit (nat_to_dec n) \<and> dec_value (nat_to_dec n) = n"
proof (induction n rule: nat_to_dec.induct)
  case (1 n)
  have digit: "is_dec_digit (char_of (48 + d)) \<and> of_char (char_of (48 + d) :: char) - 48 = d"
    if "d < 10" for d :: nat
    using that by (simp add: is_dec_digit_def to_digit_def Let_def)
  show ?case
  proof (cases "n < 10")
    case True
    with digit [of n] show ?thesis
      by (simp add: nat_to_dec.simps [of n] dec_value_def dec_step_def)
  next
    case False
    with "1" digit [of "n mod 10"] show ?thesis
      by (simp add: nat_to_dec.simps [of n] dec_value_def dec_step_def)
  qed
qed

lemma nat_to_dec_hd: "hd (nat_to_dec n) \<noteq> CHR ''+''"
proof -
  have "is_dec_digit (hd (nat_to_dec n))"
    using nat_to_dec_props [of n] by (cases "nat_to_dec n") auto
  then show ?thesis by (auto simp: is_dec_digit_def to_digit_def)
qed

text \<open>
  C14. Printing a \<open>u32\<close> in decimal and parsing it back with
  \<open>parse::<u32>\<close> gives the same number: every index \<open>single_slide\<close> can be
  asked for has a literal that selects it.
\<close>

theorem parse_u32_print: "parse_u32 (nat_to_dec (unat w)) = Inr w"
  using nat_to_dec_props [of "unat w"] nat_to_dec_hd [of "unat w"] unsigned_less [of w, where ?'a = nat]
  by (simp add: parse_u32_Inr_eq valid_u32_literal_def unsigned_body_def)

lemma parse_u32_Empty_iff: "parse_u32 s = Inl Empty \<longleftrightarrow> s = []"
proof
  assume "parse_u32 s = Inl Empty"
  moreover have "parse_digits acc ds \<noteq> Inl Empty" for acc ds
    by (induction acc ds rule: parse_digits.induct) (auto simp: Let_def split: option.splits)
  ultimately show "s = []" by (auto simp: parse_u32_checked split: if_splits)
qed (simp add: parse_u32_checked)

text \<open>
  C15. A decimal literal whose value does not fit in 32 bits makes
  \<open>parse::<u32>\<close> fail: an index such as \<open>4294967296\<close>, a valid
  non-negative integer, is rejected.
\<close>

theorem parse_u32_overflow:
  "2 ^ 32 \<le> dec_value (unsigned_body s) \<Longrightarrow> isl (parse_u32 s)"
proof -
  assume "2 ^ 32 \<le> dec_value (unsigned_body s)"
  then have "\<not> valid_u32_literal s" by (simp add: valid_u32_literal_def Let_def)
  then show "isl (parse_u32 s)"
    by (cases "parse_u32 s") (auto simp: parse_u32_Inr_eq)
qed

theorem parse_u32_overflow_witness:
  "2 ^ 32 \<le> dec_value (unsigned_body ''4294967296'') \<and> isl (parse_u32 ''4294967296'')"
proof -
  have v: "2 ^ 32 \<le> dec_value (unsigned_body ''4294967296'')"
    by (simp add: dec_value_def dec_step_def unsigned_body_def)
  show ?thesis using v parse_u32_overflow [OF v] by simp
qed

end
