(* ===== verification/HtmlUtils.thy ===== *)
theory HtmlUtils
  imports Rewriter U32Parse
begin

text \<open>
  src/lib/html-utils/src/lib.rs: \<open>single_slide(html, slide)\<close> reduces a
  multi-slide document to one slide. It registers five element handlers with
  \<open>lol_html\<close>, each built by the \<open>element!\<close> macro from a selector string that
  is compiled and unwrapped (\<open>compile_handlers\<close>), and runs \<open>rewrite_str\<close>:
  \<^item> \<open>[data-freya-id="slide"]\<close>: read \<open>data-freya-index\<close>; if present, parse it
    as \<open>u32\<close> and unwrap (a bad index panics), and remove the container when the
    value differs from \<open>slide\<close> (\<open>slide_handler\<close>);
  \<^item> \<open>loading\<close>, \<open>list:container\<close>, \<open>presenter:container\<close> markers: remove
    (\<open>remove_handler\<close>);
  \<^item> \<open>body\<close>: set \<open>style\<close> to \<open>display: block; overflow: auto\<close>, ignoring
    the result of \<open>set_attribute\<close> (\<open>body_handler\<close>).
  The final \<open>unwrap\<close> of the rewrite's result turns every error into a panic:
  the model returns it as \<open>Inl\<close>. \<open>start\<close> and the module state are in
  \<open>WasmModule\<close>.
\<close>

datatype freya_error = SelectorSyntaxError | IndexParseError int_error_kind

definition slide_handler :: "u32 \<Rightarrow> freya_error handler" where
  "slide_handler slide el =
     (case get_attribute el ''data-freya-index'' of
        None \<Rightarrow> Inr el
      | Some value \<Rightarrow>
          (case parse_u32 value of
             Inl k \<Rightarrow> Inl (IndexParseError k)
           | Inr v \<Rightarrow> Inr (if v \<noteq> slide then remove el else el)))"

definition remove_handler :: "freya_error handler" where
  "remove_handler el = Inr (remove el)"

definition style_value :: string where
  "style_value = ''display: block; overflow: auto''"

definition body_handler :: "freya_error handler" where
  "body_handler el = (case set_attribute el ''style'' style_value of Inl _ \<Rightarrow> Inr el | Inr el' \<Rightarrow> Inr el')"

definition slide_selector :: string where
  \<open>slide_selector = ''[data-freya-id="slide"]''\<close>

definition loading_selector :: string where
  \<open>loading_selector = ''[data-freya-id="loading"]''\<close>

definition list_selector :: string where
  \<open>list_selector = ''[data-freya-id="list:container"]''\<close>

definition presenter_selector :: string where
  \<open>presenter_selector = ''[data-freya-id="presenter:container"]''\<close>

definition body_selector :: string where
  "body_selector = ''body''"

definition freya_handler_specs :: "u32 \<Rightarrow> (string \<times> freya_error handler) list" where
  "freya_handler_specs slide =
     [(slide_selector, slide_handler slide),
      (loading_selector, remove_handler),
      (list_selector, remove_handler),
      (presenter_selector, remove_handler),
      (body_selector, body_handler)]"

fun compile_handlers :: "(string \<times> 'h) list \<Rightarrow> freya_error + (selector \<times> 'h) list" where
  "compile_handlers [] = Inr []"
| "compile_handlers ((s, h) # hs) =
     (case parse_selector s of
        None \<Rightarrow> Inl SelectorSyntaxError
      | Some sel \<Rightarrow> sbind (compile_handlers hs) (\<lambda>cs. Inr ((sel, h) # cs)))"

definition single_slide :: "token list \<Rightarrow> u32 \<Rightarrow> freya_error + token list" where
  "single_slide html slide =
     sbind (compile_handlers (freya_handler_specs slide)) (\<lambda>hs. rewrite_str hs html)"

subsection \<open>The compiled pipeline\<close>

abbreviation freya_id :: "attrs \<Rightarrow> string option" where
  "freya_id a \<equiv> map_of a ''data-freya-id''"

definition freya_handlers :: "u32 \<Rightarrow> freya_error handlers" where
  "freya_handlers slide =
     [([AttrEq ''data-freya-id'' ''slide''], slide_handler slide),
      ([AttrEq ''data-freya-id'' ''loading''], remove_handler),
      ([AttrEq ''data-freya-id'' ''list:container''], remove_handler),
      ([AttrEq ''data-freya-id'' ''presenter:container''], remove_handler),
      ([TagIs ''body''], body_handler)]"

lemma compile_freya_handlers: "compile_handlers (freya_handler_specs slide) = Inr (freya_handlers slide)"
  by (simp add: freya_handler_specs_def freya_handlers_def slide_selector_def loading_selector_def
      list_selector_def presenter_selector_def body_selector_def parse_selector_def is_ident_char_def)

lemma single_slide_rewrite [model_simps]:
  "single_slide html slide = rewrite_str (freya_handlers slide) html"
  by (simp add: single_slide_def compile_freya_handlers)

subsection \<open>What the pipeline decides for one element\<close>

text \<open>
  The decision for one start tag, read off the five handlers: the slide check
  (which can fail), removal of the chrome markers, and the body style. Only
  \<open>style\<close> is written, so the attributes a later handler reads are the
  ones the earlier handlers left.
\<close>

definition slide_decision :: "u32 \<Rightarrow> attrs \<Rightarrow> freya_error + bool" where
  "slide_decision slide a =
     (if freya_id a = Some ''slide'' then
        (case map_of a ''data-freya-index'' of
           None \<Rightarrow> Inr False
         | Some v \<Rightarrow> (case parse_u32 v of Inl e \<Rightarrow> Inl (IndexParseError e) | Inr w \<Rightarrow> Inr (w \<noteq> slide)))
      else Inr False)"

definition is_chrome :: "attrs \<Rightarrow> bool" where
  "is_chrome a \<longleftrightarrow>
     freya_id a \<in> {Some ''loading'', Some ''list:container'', Some ''presenter:container''}"

definition body_attrs :: "string \<Rightarrow> attrs \<Rightarrow> attrs" where
  "body_attrs t a = (if t = ''body'' then set_attr a ''style'' style_value else a)"

lemma body_handler_sets:
  "body_handler el = Inr (el\<lparr>el_attrs := set_attr (el_attrs el) ''style'' style_value\<rparr>)"
  by (simp add: body_handler_def set_attribute_valid forbidden_name_chars_def)

lemma run_freya_handlers [model_simps]:
  "run_handlers (freya_handlers slide) t a (mk_element a) =
     sbind (slide_decision slide a)
       (\<lambda>rm. Inr \<lparr>el_attrs = body_attrs t a, el_removed = rm \<or> is_chrome a\<rparr>)"
  by (auto simp: freya_handlers_def sel_matches_def slide_decision_def slide_handler_def
      get_attribute_def mk_element_def remove_def remove_handler_def body_handler_sets
      is_chrome_def body_attrs_def split: option.split sum.split)

declare slide_decision_def [model_simps] is_chrome_def [model_simps] body_attrs_def [model_simps]
  style_value_def [model_simps] rewrite_str_def [model_simps]

lemma body_attrs_other [simp]: "n \<noteq> ''style'' \<Longrightarrow> map_of (body_attrs t a) n = map_of a n"
  by (simp add: body_attrs_def)

lemma is_chrome_body_attrs [simp]: "is_chrome (body_attrs t a) \<longleftrightarrow> is_chrome a"
  by (simp add: is_chrome_def)

lemma single_slide_StartTag:
  "single_slide html slide = Inr out \<Longrightarrow> StartTag t a' \<in> set out \<Longrightarrow>
     \<exists>a. StartTag t a \<in> set html \<and> slide_decision slide a = Inr False \<and> \<not> is_chrome a \<and>
       a' = body_attrs t a"
proof -
  assume "single_slide html slide = Inr out" and "StartTag t a' \<in> set out"
  then obtain a el where "StartTag t a \<in> set html"
    and run: "run_handlers (freya_handlers slide) t a (mk_element a) = Inr el"
    and "\<not> el_removed el" and "a' = el_attrs el"
    using rewrite_tokens_StartTag by (fastforce simp: single_slide_rewrite rewrite_str_def)
  moreover from run obtain rm where "slide_decision slide a = Inr rm"
    and "el = \<lparr>el_attrs = body_attrs t a, el_removed = rm \<or> is_chrome a\<rparr>"
    by (auto simp: run_freya_handlers)
  ultimately show ?thesis by auto
qed

lemma slide_decision_isl:
  "isl (slide_decision slide a) \<longleftrightarrow>
     freya_id a = Some ''slide'' \<and> (\<exists>v. map_of a ''data-freya-index'' = Some v \<and> isl (parse_u32 v))"
proof (cases "map_of a ''data-freya-index''")
  case (Some v)
  then show ?thesis by (cases "parse_u32 v") (auto simp: slide_decision_def)
qed (simp add: slide_decision_def)

lemma single_slide_isl:
  "isl (single_slide html slide) \<longleftrightarrow>
     (\<exists>t a. StartTag t a \<in> set html \<and> isl (slide_decision slide a))"
proof -
  have "isl (run_handlers (freya_handlers slide) t a (mk_element a)) \<longleftrightarrow>
      isl (slide_decision slide a)" for t a
    by (cases "slide_decision slide a") (simp_all add: run_freya_handlers)
  then show ?thesis by (simp add: single_slide_rewrite rewrite_str_def rewrite_tokens_isl)
qed

text \<open>
  C1. Whatever the document and the requested slide, no start tag of the
  output of \<open>single_slide\<close> carries the loading, list-container or
  presenter-container marker.
\<close>

theorem single_slide_no_chrome:
  "single_slide html slide = Inr out \<Longrightarrow> StartTag t a \<in> set out \<Longrightarrow> \<not> is_chrome a"
  using single_slide_StartTag by fastforce

text \<open>
  C2. Every \<open>body\<close> start tag in the output of \<open>single_slide\<close> has the
  style \<open>display: block; overflow: auto\<close>, whatever style it had before.
\<close>

theorem single_slide_body_style:
  "single_slide html slide = Inr out \<Longrightarrow> StartTag ''body'' a \<in> set out \<Longrightarrow>
     map_of a ''style'' = Some style_value"
  using single_slide_StartTag by (fastforce simp: body_attrs_def)

text \<open>
  C5. Every slide container left in the output of \<open>single_slide\<close> either has
  no index attribute or has an index that parses to the requested slide.
\<close>

theorem single_slide_slide_index:
  "single_slide html slide = Inr out \<Longrightarrow> StartTag t a \<in> set out \<Longrightarrow>
     freya_id a = Some ''slide'' \<Longrightarrow>
     (case map_of a ''data-freya-index'' of None \<Rightarrow> True | Some v \<Rightarrow> parse_u32 v = Inr slide)"
proof -
  assume "single_slide html slide = Inr out" "StartTag t a \<in> set out" "freya_id a = Some ''slide''"
  then obtain a0 where "slide_decision slide a0 = Inr False" "a = body_attrs t a0"
    "freya_id a0 = Some ''slide''"
    using single_slide_StartTag by fastforce
  then show ?thesis
    by (auto simp: slide_decision_def split: option.splits sum.splits)
qed

text \<open>
  C6. \<open>single_slide\<close> fails (the Rust code panics) exactly when some slide
  container anywhere in the document, kept or removed, has an index attribute
  that \<open>parse::<u32>\<close> rejects; the failure does not depend on the requested
  slide.
\<close>

theorem single_slide_fails_iff:
  "isl (single_slide html slide) \<longleftrightarrow>
     (\<exists>t a v. StartTag t a \<in> set html \<and> freya_id a = Some ''slide'' \<and>
        map_of a ''data-freya-index'' = Some v \<and> isl (parse_u32 v))"
  by (auto simp: single_slide_isl slide_decision_isl)

subsection \<open>Which error a failing call reports\<close>

text \<open>The error of one start tag, read the way the slide handler reads it, and
  the first such error in stream order.\<close>

definition index_error :: "attrs \<Rightarrow> freya_error option" where
  "index_error a =
     (if freya_id a = Some ''slide'' then
        (case map_of a ''data-freya-index'' of
           None \<Rightarrow> None
         | Some v \<Rightarrow> (case parse_u32 v of Inl k \<Rightarrow> Some (IndexParseError k) | Inr _ \<Rightarrow> None))
      else None)"

fun first_index_error :: "token list \<Rightarrow> freya_error option" where
  "first_index_error [] = None"
| "first_index_error (StartTag t a # ts) =
     (case index_error a of Some e \<Rightarrow> Some e | None \<Rightarrow> first_index_error ts)"
| "first_index_error (EndTag t # ts) = first_index_error ts"
| "first_index_error (TextTok s # ts) = first_index_error ts"

lemma slide_decision_Inl: "slide_decision slide a = Inl e \<longleftrightarrow> index_error a = Some e"
  by (auto simp: slide_decision_def index_error_def split: option.splits sum.splits)

lemma slide_decision_Inr: "index_error a = None \<Longrightarrow> \<exists>rm. slide_decision slide a = Inr rm"
  by (auto simp: slide_decision_def index_error_def split: option.splits sum.splits)

lemma rewrite_freya_Inl:
  "rewrite_tokens (freya_handlers slide) st ts = Inl e \<longleftrightarrow> first_index_error ts = Some e"
proof (induction ts arbitrary: st)
  case (Cons tok ts)
  show ?case
  proof (cases tok)
    case (StartTag t a)
    show ?thesis
    proof (cases "index_error a")
      case None
      then obtain rm where rm: "slide_decision slide a = Inr rm" using slide_decision_Inr by blast
      with None StartTag Cons.IH show ?thesis
        by (auto simp: run_freya_handlers sbind_eq_Inl_iff split: sum.split)
    next
      case (Some e')
      then have "slide_decision slide a = Inl e'" by (simp add: slide_decision_Inl)
      with Some StartTag show ?thesis by (simp add: run_freya_handlers)
    qed
  next
    case (EndTag t)
    with Cons.IH show ?thesis by (auto simp: sbind_eq_Inl_iff split: prod.split)
  next
    case (TextTok s)
    with Cons.IH show ?thesis by (auto simp: sbind_eq_Inl_iff split: prod.split)
  qed
qed simp

text \<open>
  C7. When \<open>single_slide\<close> fails, the error it panics with is the parse error of
  the first slide container in stream order whose index \<open>parse::<u32>\<close>
  rejects, whether that container is kept or inside a removed element; and it
  fails with that error whenever there is one.
\<close>

theorem single_slide_first_error:
  "single_slide html slide = Inl e \<longleftrightarrow> first_index_error html = Some e"
  by (simp add: single_slide_rewrite rewrite_str_def rewrite_freya_Inl)


lemma slide_decision_body_attrs [simp]: "slide_decision slide (body_attrs t a) = slide_decision slide a"
  by (simp add: slide_decision_def)

lemma body_attrs_idem [simp]: "body_attrs t (body_attrs t a) = body_attrs t a"
  by (simp add: body_attrs_def)

text \<open>
  C17. \<open>single_slide\<close> is idempotent: applied to its own output with the same
  slide it returns that output unchanged, and it cannot fail there.
\<close>

theorem single_slide_idempotent:
  "single_slide html slide = Inr out \<Longrightarrow> single_slide out slide = Inr out"
proof -
  assume out: "single_slide html slide = Inr out"
  have "list_all (\<lambda>tok. case tok of
      StartTag t a \<Rightarrow> run_handlers (freya_handlers slide) t a (mk_element a) = Inr (mk_element a)
    | _ \<Rightarrow> True) out"
    unfolding list_all_iff
  proof
    fix tok assume tok: "tok \<in> set out"
    show "case tok of StartTag t a \<Rightarrow> run_handlers (freya_handlers slide) t a (mk_element a) = Inr (mk_element a)
        | _ \<Rightarrow> True"
    proof (cases tok)
      case (StartTag t a')
      with out tok obtain a where "slide_decision slide a = Inr False" "\<not> is_chrome a" "a' = body_attrs t a"
        using single_slide_StartTag by blast
      with StartTag show ?thesis
        by (simp only: run_freya_handlers) (simp add: mk_element_def del: sbind_eq_Inr_iff)
    qed simp_all
  qed
  then show ?thesis by (simp add: single_slide_rewrite rewrite_str_def rewrite_tokens_identity)
qed

text \<open>
  C18. \<open>single_slide\<close> only deletes tokens and rewrites attributes: with the
  attributes of start tags set aside, its output is a subsequence of its input,
  so no element, text or end tag is invented, duplicated or moved.
\<close>

theorem single_slide_subseq:
  "single_slide html slide = Inr out \<Longrightarrow> subseq (map tag_shape out) (map tag_shape html)"
  by (simp add: single_slide_rewrite rewrite_str_def rewrite_tokens_subseq)

subsection \<open>Which slides survive, on the document tree\<close>

text \<open>
  A slide container that sits inside another slide container or inside a
  chrome element is removed with its parent whatever its index; the property
  the spec states holds for decks where no slide is nested so
  (\<open>slides_exposed_nodes\<close>) and every slide carries an index that parses.
\<close>

definition is_slide :: "attrs \<Rightarrow> bool" where
  "is_slide a \<longleftrightarrow> freya_id a = Some ''slide''"

definition slide_index_of :: "attrs \<Rightarrow> u32 option" where
  "slide_index_of a =
     (case map_of a ''data-freya-index'' of
        None \<Rightarrow> None
      | Some v \<Rightarrow> (case parse_u32 v of Inl _ \<Rightarrow> None | Inr w \<Rightarrow> Some w))"

fun slides_exposed_node :: "node \<Rightarrow> bool"
  and slides_exposed_nodes :: "node list \<Rightarrow> bool" where
  "slides_exposed_node (Element t a cs) \<longleftrightarrow>
     ((is_slide a \<or> is_chrome a) \<longrightarrow> \<not> list_ex (\<lambda>(t, a). is_slide a) (elems_nodes cs)) \<and>
     slides_exposed_nodes cs"
| "slides_exposed_node (Text s) \<longleftrightarrow> True"
| "slides_exposed_nodes [] \<longleftrightarrow> True"
| "slides_exposed_nodes (n # ns) \<longleftrightarrow> slides_exposed_node n \<and> slides_exposed_nodes ns"

lemma is_slide_body_attrs [simp]: "is_slide (body_attrs t a) \<longleftrightarrow> is_slide a"
  by (simp add: is_slide_def)

lemma slide_decision_cases:
  "slide_decision slide a = Inr rm \<Longrightarrow>
     rm \<longleftrightarrow> is_slide a \<and> slide_index_of a \<noteq> None \<and> slide_index_of a \<noteq> Some slide"
  by (auto simp: slide_decision_def is_slide_def slide_index_of_def split: option.splits sum.splits if_splits)

lemma no_slides_filter: "\<not> list_ex (\<lambda>(t, a). is_slide a) es \<Longrightarrow>
  filter (\<lambda>(t, a). is_slide a \<and> P a) es = []"
  by (induction es) auto

lemma chrome_not_slide: "is_chrome a \<Longrightarrow> \<not> is_slide a"
  by (auto simp: is_chrome_def is_slide_def)

lemma rw_freya_slides:
  "slides_exposed_node n \<Longrightarrow> list_all (\<lambda>(t, a). is_slide a \<longrightarrow> slide_index_of a \<noteq> None) (elems_node n) \<Longrightarrow>
   rw_node (freya_handlers slide) n = Inr f' \<Longrightarrow>
   filter (\<lambda>(t, a). is_slide a) (elems_nodes f') =
     map (\<lambda>(t, a). (t, body_attrs t a)) (filter (\<lambda>(t, a). is_slide a \<and> slide_index_of a = Some slide) (elems_node n))"
  "slides_exposed_nodes ns \<Longrightarrow> list_all (\<lambda>(t, a). is_slide a \<longrightarrow> slide_index_of a \<noteq> None) (elems_nodes ns) \<Longrightarrow>
   rw_nodes (freya_handlers slide) ns = Inr f' \<Longrightarrow>
   filter (\<lambda>(t, a). is_slide a) (elems_nodes f') =
     map (\<lambda>(t, a). (t, body_attrs t a)) (filter (\<lambda>(t, a). is_slide a \<and> slide_index_of a = Some slide) (elems_nodes ns))"
proof (induction n and ns arbitrary: f' and f' rule: elems_node_elems_nodes.induct)
  case (1 t a cs)
  from "1.prems"(3) obtain rm where rm: "slide_decision slide a = Inr rm"
    by (cases "slide_decision slide a") (auto simp: run_freya_handlers)
  note dec = slide_decision_cases [OF rm]
  show ?case
  proof (cases "rm \<or> is_chrome a")
    case True
    with "1.prems" rm have "f' = []"
      by (auto simp: run_freya_handlers split: option.splits)
    moreover from True dec "1.prems"(1) have "\<not> list_ex (\<lambda>(t, a). is_slide a) (elems_nodes cs)"
      by auto
    ultimately show ?thesis using True dec chrome_not_slide [of a]
      by (auto simp: no_slides_filter)
  next
    case False
    with "1.prems"(3) rm obtain cs' where cs': "rw_nodes (freya_handlers slide) cs = Inr cs'"
      and f': "f' = [Element t (body_attrs t a) cs']"
      by (auto simp: run_freya_handlers)
    from "1.IH" [OF _ _ cs'] "1.prems"(1,2) have
      "filter (\<lambda>(t, a). is_slide a) (elems_nodes cs') =
       map (\<lambda>(t, a). (t, body_attrs t a)) (filter (\<lambda>(t, a). is_slide a \<and> slide_index_of a = Some slide) (elems_nodes cs))"
      by simp
    with f' False dec "1.prems"(2) show ?thesis by auto
  qed
next
  case (4 n ns)
  from "4.prems"(3) obtain xs ys where xs: "rw_node (freya_handlers slide) n = Inr xs"
    and ys: "rw_nodes (freya_handlers slide) ns = Inr ys" and f': "f' = xs @ ys"
    by (cases "rw_node (freya_handlers slide) n"; cases "rw_nodes (freya_handlers slide) ns") auto
  from "4.IH"(1) [OF _ _ xs] "4.IH"(2) [OF _ _ ys] "4.prems"(1,2) f' show ?case by simp
qed simp_all

subsection \<open>The spec's first-match reading of the pipeline\<close>

text \<open>
  Section 4.2 of the spec describes the pipeline as rules of which the first
  whose selector matches decides a single directive for the element. The code
  registers the rules as \<open>lol_html\<close> handlers, which all run when they
  match. The two readings agree on every element that is not both a body and a
  slide or chrome element.
\<close>

datatype directive = Remove | SetAttribute string string | NoOp

definition first_match_directive :: "u32 \<Rightarrow> string \<Rightarrow> attrs \<Rightarrow> freya_error + directive" where
  "first_match_directive slide t a =
     (if is_slide a then
        (case map_of a ''data-freya-index'' of
           None \<Rightarrow> Inr NoOp
         | Some v \<Rightarrow>
             (case parse_u32 v of
                Inl e \<Rightarrow> Inl (IndexParseError e)
              | Inr w \<Rightarrow> Inr (if w \<noteq> slide then Remove else NoOp)))
      else if is_chrome a then Inr Remove
      else if t = ''body'' then Inr (SetAttribute ''style'' style_value)
      else Inr NoOp)"

fun apply_directive :: "directive \<Rightarrow> element \<Rightarrow> element" where
  "apply_directive Remove el = remove el"
| "apply_directive (SetAttribute n v) el = el\<lparr>el_attrs := set_attr (el_attrs el) n v\<rparr>"
| "apply_directive NoOp el = el"

text \<open>
  C19. On every element that is not a body carrying a slide or chrome marker,
  running all matching handlers of \<open>single_slide\<close> gives the element the
  spec's first-match directive gives it, errors included.
\<close>

theorem handlers_first_match:
  "\<not> (t = ''body'' \<and> (is_slide a \<or> is_chrome a)) \<Longrightarrow>
     run_handlers (freya_handlers slide) t a (mk_element a) =
     sbind (first_match_directive slide t a) (\<lambda>d. Inr (apply_directive d (mk_element a)))"
  by (simp only: run_freya_handlers)
    (auto simp: first_match_directive_def slide_decision_def is_slide_def
      is_chrome_def body_attrs_def mk_element_def remove_def
      split: option.split sum.split)

theorem handlers_first_match_witness:
  "\<not> (''div'' = ''body'' \<and> (is_slide [(''data-freya-id'', ''loading'')] \<or> is_chrome [(''data-freya-id'', ''loading'')])) \<and>
   run_handlers (freya_handlers 1) ''div'' [(''data-freya-id'', ''loading'')] (mk_element [(''data-freya-id'', ''loading'')]) =
   sbind (first_match_directive 1 ''div'' [(''data-freya-id'', ''loading'')])
     (\<lambda>d. Inr (apply_directive d (mk_element [(''data-freya-id'', ''loading'')])))"
proof -
  have h: "\<not> (''div'' = ''body'' \<and> (is_slide [(''data-freya-id'', ''loading'')] \<or> is_chrome [(''data-freya-id'', ''loading'')]))"
    by simp
  show ?thesis using h handlers_first_match [OF h, of 1] by simp
qed

subsection \<open>Elements no rule matches pass through\<close>

lemma rw_freya_untouched:
  "list_all (\<lambda>(t, a). \<not> is_slide a \<and> \<not> is_chrome a \<and> t \<noteq> ''body'') (elems_node n) \<Longrightarrow>
     rw_node (freya_handlers slide) n = Inr [n]"
  "list_all (\<lambda>(t, a). \<not> is_slide a \<and> \<not> is_chrome a \<and> t \<noteq> ''body'') (elems_nodes ns) \<Longrightarrow>
     rw_nodes (freya_handlers slide) ns = Inr ns"
proof (induction n and ns rule: elems_node_elems_nodes.induct)
  case (1 t a cs)
  then have "slide_decision slide a = Inr False" "body_attrs t a = a" "\<not> is_chrome a"
    by (auto simp: slide_decision_def is_slide_def body_attrs_def)
  with 1 show ?case by (simp add: run_freya_handlers)
qed simp_all

subsection \<open>The requested slide is kept whole\<close>

text \<open>A node is kept along its path when every element above it is neither
  chrome nor a slide container that the slide rule removes.\<close>

inductive kept_in :: "u32 \<Rightarrow> node \<Rightarrow> node list \<Rightarrow> bool" for slide where
  here: "n \<in> set ns \<Longrightarrow> kept_in slide n ns"
| down: "Element t a cs \<in> set ns \<Longrightarrow> \<not> is_chrome a \<Longrightarrow> slide_decision slide a = Inr False \<Longrightarrow>
     kept_in slide n cs \<Longrightarrow> kept_in slide n ns"

lemma rw_freya_kept:
  "kept_in slide n ns \<Longrightarrow> rw_nodes (freya_handlers slide) ns = Inr ns' \<Longrightarrow>
     rw_node (freya_handlers slide) n = Inr [n] \<Longrightarrow> n \<in> set (subtrees_nodes ns')"
proof (induction arbitrary: ns' rule: kept_in.induct)
  case (here n ns)
  then obtain xs where "rw_node (freya_handlers slide) n = Inr xs" "set xs \<subseteq> set ns'"
    using rw_nodes_member by blast
  with here.prems(2) have "n \<in> set ns'" by simp
  then show ?case using subtrees_nodes_member [of n ns'] by auto
next
  case (down t a cs ns n)
  then obtain xs where x: "rw_node (freya_handlers slide) (Element t a cs) = Inr xs" "set xs \<subseteq> set ns'"
    using rw_nodes_member by blast
  with down.hyps(2,3) obtain cs' where cs': "rw_nodes (freya_handlers slide) cs = Inr cs'"
    and xs: "xs = [Element t (body_attrs t a) cs']"
    by (auto simp: run_freya_handlers)
  from down.IH [OF cs' down.prems(2)] have "n \<in> set (subtrees_nodes cs')" .
  moreover have "Element t (body_attrs t a) cs' \<in> set ns'" using x xs by simp
  then have "set (subtrees_node (Element t (body_attrs t a) cs')) \<subseteq> set (subtrees_nodes ns')"
    by (rule subtrees_nodes_member)
  ultimately show ?case by auto
qed

lemma rw_freya_requested_slide:
  "is_slide a \<Longrightarrow> slide_index_of a = Some slide \<Longrightarrow> t \<noteq> ''body'' \<Longrightarrow>
     list_all (\<lambda>(t, a). \<not> is_slide a \<and> \<not> is_chrome a \<and> t \<noteq> ''body'') (elems_nodes cs) \<Longrightarrow>
     rw_node (freya_handlers slide) (Element t a cs) = Inr [Element t a cs]"
proof -
  assume s: "is_slide a" "slide_index_of a = Some slide" "t \<noteq> ''body''"
    and cs: "list_all (\<lambda>(t, a). \<not> is_slide a \<and> \<not> is_chrome a \<and> t \<noteq> ''body'') (elems_nodes cs)"
  from s(1) have "\<not> is_chrome a" using chrome_not_slide by blast
  moreover from s have "slide_decision slide a = Inr False" "body_attrs t a = a"
    by (auto simp: slide_decision_def is_slide_def slide_index_of_def body_attrs_def
        split: option.splits sum.splits)
  ultimately show ?thesis using rw_freya_untouched(2) [OF cs] by (simp add: run_freya_handlers)
qed
subsection \<open>The scenario of the spec\<close>

text \<open>A deck with a body, a loading indicator and two slides, indexed 0 and 1.\<close>

abbreviation deck_example :: "token list" where
  "deck_example \<equiv>
     [StartTag ''body'' [],
      StartTag ''div'' [(''data-freya-id'', ''loading'')], TextTok ''...'', EndTag ''div'',
      StartTag ''div'' [(''data-freya-id'', ''slide''), (''data-freya-index'', ''0'')],
        TextTok ''A'', EndTag ''div'',
      StartTag ''div'' [(''data-freya-id'', ''slide''), (''data-freya-index'', ''1'')],
        TextTok ''B'', EndTag ''div'',
      EndTag ''body'']"

abbreviation deck_slide1 :: "token list" where
  "deck_slide1 \<equiv>
     [StartTag ''body'' [(''style'', ''display: block; overflow: auto'')],
      StartTag ''div'' [(''data-freya-id'', ''slide''), (''data-freya-index'', ''1'')],
        TextTok ''B'', EndTag ''div'',
      EndTag ''body'']"

lemma deck_example_slide1: "single_slide deck_example 1 = Inr deck_slide1"
  by (simp add: model_simps)

text \<open>Removal ends at the end tag that matches the removed element by name, as
  in \<open>lol_html\<close>: an unclosed \<open>p\<close> inside slide 0 does not keep slide 1
  removed, and an end tag whose element is not open is passed through.\<close>

lemma single_slide_unclosed_inner:
  "single_slide [StartTag ''div'' [(''data-freya-id'', ''slide''), (''data-freya-index'', ''0'')],
      StartTag ''p'' [], TextTok ''A'', EndTag ''div'',
      StartTag ''div'' [(''data-freya-id'', ''slide''), (''data-freya-index'', ''1'')], TextTok ''B'', EndTag ''div''] 1 =
   Inr [StartTag ''div'' [(''data-freya-id'', ''slide''), (''data-freya-index'', ''1'')], TextTok ''B'', EndTag ''div'']"
  by (simp add: single_slide_rewrite rewrite_str_def run_freya_handlers slide_decision_def is_chrome_def model_simps)

lemma single_slide_stray_end_tag:
  "single_slide [StartTag ''div'' [(''data-freya-id'', ''loading'')], StartTag ''span'' [], EndTag ''div'', EndTag ''span''] 0 =
   Inr [EndTag ''span'']"
  by (simp add: single_slide_rewrite rewrite_str_def run_freya_handlers slide_decision_def is_chrome_def model_simps)

theorem single_slide_no_chrome_witness:
  "single_slide deck_example 1 = Inr deck_slide1 \<and>
   StartTag ''div'' [(''data-freya-id'', ''slide''), (''data-freya-index'', ''1'')] \<in> set deck_slide1 \<and>
   \<not> is_chrome [(''data-freya-id'', ''slide''), (''data-freya-index'', ''1'')]"
  using deck_example_slide1
    single_slide_no_chrome [OF deck_example_slide1,
      of "''div''" "[(''data-freya-id'', ''slide''), (''data-freya-index'', ''1'')]"]
  by simp

theorem single_slide_body_style_witness:
  "single_slide deck_example 1 = Inr deck_slide1 \<and>
   StartTag ''body'' [(''style'', ''display: block; overflow: auto'')] \<in> set deck_slide1 \<and>
   map_of [(''style'', ''display: block; overflow: auto'')] ''style'' = Some style_value"
  using deck_example_slide1
    single_slide_body_style [OF deck_example_slide1, of "[(''style'', ''display: block; overflow: auto'')]"]
  by simp

theorem single_slide_slide_index_witness:
  "single_slide deck_example 1 = Inr deck_slide1 \<and>
   StartTag ''div'' [(''data-freya-id'', ''slide''), (''data-freya-index'', ''1'')] \<in> set deck_slide1 \<and>
   freya_id [(''data-freya-id'', ''slide''), (''data-freya-index'', ''1'')] = Some ''slide'' \<and>
   parse_u32 ''1'' = Inr 1"
  using deck_example_slide1
    single_slide_slide_index [OF deck_example_slide1,
      of "''div''" "[(''data-freya-id'', ''slide''), (''data-freya-index'', ''1'')]"]
  by simp


theorem single_slide_idempotent_witness:
  "single_slide deck_example 1 = Inr deck_slide1 \<and> single_slide deck_slide1 1 = Inr deck_slide1"
  using deck_example_slide1 single_slide_idempotent [OF deck_example_slide1] by simp

theorem single_slide_subseq_witness:
  "single_slide deck_example 1 = Inr deck_slide1 \<and>
   subseq (map tag_shape deck_slide1) (map tag_shape deck_example)"
  using deck_example_slide1 single_slide_subseq [OF deck_example_slide1] by simp

end
