(* ===== verification/ImagesExtractor.thy ===== *)
theory ImagesExtractor
  imports Markup Selector
begin

text \<open>
  src/lib/images-extractor/src/lib.rs: \<open>extract_images(html)\<close> parses the
  document (\<open>Html::parse_document\<close>, modelled by \<open>parse_document\<close>),
  compiles the selector \<open>img[src]\<close> and unwraps it, walks the matching
  elements in document order (\<open>document.select\<close>, modelled by
  \<open>select_nodes\<close>), and pushes the \<open>src\<close> value of each onto a vector when
  \<open>attr("src")\<close> is present (\<open>extract_loop\<close>). \<open>None\<close> is the panic of the
  selector's \<open>unwrap\<close>. The main lemmas: the result is the list of \<open>src\<close>
  values of the \<open>img\<close> elements that carry one, in document order, duplicates
  kept (\<open>extract_images_img_srcs\<close>), and the \<open>is_some\<close> guard of the loop is
  never false for a selected element.
\<close>

fun select_node :: "selector \<Rightarrow> node \<Rightarrow> (string \<times> attrs) list"
  and select_nodes :: "selector \<Rightarrow> node list \<Rightarrow> (string \<times> attrs) list" where
  "select_node s (Element t a cs) = (if sel_matches s t a then [(t, a)] else []) @ select_nodes s cs"
| "select_node s (Text x) = []"
| "select_nodes s [] = []"
| "select_nodes s (n # ns) = select_node s n @ select_nodes s ns"

definition img_selector :: string where
  "img_selector = ''img[src]''"

fun extract_loop :: "string list \<Rightarrow> (string \<times> attrs) list \<Rightarrow> string list" where
  "extract_loop images [] = images"
| "extract_loop images ((t, a) # es) =
     (let attr = map_of a ''src'' in
      extract_loop (if attr \<noteq> None then images @ [the attr] else images) es)"

definition extract_images :: "token list \<Rightarrow> string list option" where
  "extract_images html =
     (let document = parse_document html in
      case parse_selector img_selector of
        None \<Rightarrow> None
      | Some selector \<Rightarrow> Some (extract_loop [] (select_nodes selector document)))"

subsection \<open>What the loop collects\<close>

text \<open>The specification of the result: one \<open>src\<close> value per \<open>img\<close> element
  that carries the attribute, in document order.\<close>

definition img_src :: "string \<times> attrs \<Rightarrow> string list" where
  "img_src e = (if fst e = ''img'' then (case map_of (snd e) ''src'' of None \<Rightarrow> [] | Some v \<Rightarrow> [v]) else [])"

definition img_srcs :: "node list \<Rightarrow> string list" where
  "img_srcs f = concat (map img_src (elems_nodes f))"

lemma select_nodes_filter:
  "select_node s n = filter (\<lambda>(t, a). sel_matches s t a) (elems_node n)"
  "select_nodes s ns = filter (\<lambda>(t, a). sel_matches s t a) (elems_nodes ns)"
  by (induction n and ns rule: elems_node_elems_nodes.induct) auto

lemma extract_loop_append:
  "extract_loop images es = images @ concat (map (\<lambda>(t, a). case map_of a ''src'' of None \<Rightarrow> [] | Some v \<Rightarrow> [v]) es)"
  by (induction images es rule: extract_loop.induct) (auto split: option.split)

lemma img_selector_compiles: "parse_selector img_selector = Some [TagIs ''img'', HasAttr ''src'']"
  by (simp add: img_selector_def parse_selector_def is_ident_char_def)

lemma extract_images_img_srcs: "extract_images html = Some (img_srcs (parse_document html))"
proof -
  have "concat (map (\<lambda>(t, a). case map_of a ''src'' of None \<Rightarrow> [] | Some v \<Rightarrow> [v])
      (filter (\<lambda>(t, a). sel_matches [TagIs ''img'', HasAttr ''src''] t a) es)) = concat (map img_src es)"
    for es
    by (induction es) (auto simp: sel_matches_def img_src_def split: option.split)
  then show ?thesis
    by (simp add: extract_images_def img_selector_compiles extract_loop_append select_nodes_filter
        img_srcs_def)
qed

text \<open>
  C9. \<open>extract_images\<close> returns, for every input, exactly the \<open>src\<close>
  values of the \<open>img\<close> elements of the parsed document that carry a
  \<open>src\<close> attribute, in document order.
\<close>

theorem extract_images_spec: "extract_images html = Some (img_srcs (parse_document html))"
  by (rule extract_images_img_srcs)

lemma img_src_length: "length (img_src e) = (if fst e = ''img'' \<and> map_of (snd e) ''src'' \<noteq> None then 1 else 0)"
  by (auto simp: img_src_def split: option.split)

lemma img_src_count:
  "count_list (img_src e) u = (if fst e = ''img'' \<and> map_of (snd e) ''src'' = Some u then 1 else 0)"
proof (cases "fst e = ''img''")
  case True
  then show ?thesis by (cases "map_of (snd e) ''src''") (auto simp: img_src_def)
qed (simp add: img_src_def)

text \<open>
  C10. The number of URLs \<open>extract_images\<close> returns equals the number of
  \<open>img\<close> elements of the document that carry \<open>src\<close>; an \<open>img\<close> without
  it contributes nothing.
\<close>

theorem extract_images_length:
  assumes "extract_images html = Some urls"
  shows "length urls = length (filter (\<lambda>(t, a). t = ''img'' \<and> map_of a ''src'' \<noteq> None)
                             (elems_nodes (parse_document html)))"
proof -
  have "length (concat (map img_src es)) =
      length (filter (\<lambda>(t, a). t = ''img'' \<and> map_of a ''src'' \<noteq> None) es)" for es
    by (induction es) (auto simp: img_src_length)
  moreover from assms have "urls = concat (map img_src (elems_nodes (parse_document html)))"
    by (simp add: extract_images_img_srcs img_srcs_def)
  ultimately show ?thesis by simp
qed

text \<open>
  C11. Duplicate URLs are kept: each URL occurs in the result of
  \<open>extract_images\<close> as often as there are \<open>img\<close> elements whose \<open>src\<close> is
  that URL.
\<close>

theorem extract_images_count:
  assumes "extract_images html = Some urls"
  shows "count_list urls u = length (filter (\<lambda>(t, a). t = ''img'' \<and> map_of a ''src'' = Some u)
                                  (elems_nodes (parse_document html)))"
proof -
  have "count_list (concat (map img_src es)) u =
      length (filter (\<lambda>(t, a). t = ''img'' \<and> map_of a ''src'' = Some u) es)" for es
    by (induction es) (auto simp: img_src_count)
  moreover from assms have "urls = concat (map img_src (elems_nodes (parse_document html)))"
    by (simp add: extract_images_img_srcs img_srcs_def)
  ultimately show ?thesis by simp
qed

text \<open>
  C12. Every element the compiled selector \<open>img[src]\<close> selects is an
  \<open>img\<close> carrying \<open>src\<close>: the \<open>attr.is_some()\<close> test of the loop never
  fails, and the loop pushes one URL per selected element.
\<close>

theorem extract_loop_guard:
  "parse_selector img_selector = Some sel \<Longrightarrow> (t, a) \<in> set (select_nodes sel f) \<Longrightarrow>
     t = ''img'' \<and> map_of a ''src'' \<noteq> None"
  by (auto simp: img_selector_compiles select_nodes_filter sel_matches_def)

subsection \<open>Witnesses\<close>

lemma extract_images_example:
  "extract_images [StartTag ''img'' [(''src'', ''a.png'')], StartTag ''img'' []] = Some [''a.png'']"
  by (simp add: extract_images_img_srcs parse_document_def img_srcs_def img_src_def model_simps)

theorem extract_images_length_witness:
  "extract_images [StartTag ''img'' [(''src'', ''a.png'')], StartTag ''img'' []] = Some [''a.png''] \<and>
   length [''a.png''] = length (filter (\<lambda>(t, a). t = ''img'' \<and> map_of a ''src'' \<noteq> None)
     (elems_nodes (parse_document [StartTag ''img'' [(''src'', ''a.png'')], StartTag ''img'' []])))"
  using extract_images_example extract_images_length [OF extract_images_example] by simp

theorem extract_images_count_witness:
  "extract_images [StartTag ''img'' [(''src'', ''a.png'')], StartTag ''img'' []] = Some [''a.png''] \<and>
   count_list [''a.png''] ''a.png'' = length (filter (\<lambda>(t, a). t = ''img'' \<and> map_of a ''src'' = Some ''a.png'')
     (elems_nodes (parse_document [StartTag ''img'' [(''src'', ''a.png'')], StartTag ''img'' []])))"
  using extract_images_example extract_images_count [OF extract_images_example, of "''a.png''"] by simp

theorem extract_loop_guard_witness:
  "parse_selector img_selector = Some [TagIs ''img'', HasAttr ''src''] \<and>
   (''img'', [(''src'', ''a.png'')]) \<in> set (select_nodes [TagIs ''img'', HasAttr ''src'']
      [Element ''img'' [(''src'', ''a.png'')] []]) \<and>
   ''img'' = ''img'' \<and> map_of [(''src'', ''a.png'')] ''src'' \<noteq> None"
proof -
  have m: "(''img'', [(''src'', ''a.png'')]) \<in> set (select_nodes [TagIs ''img'', HasAttr ''src'']
      [Element ''img'' [(''src'', ''a.png'')] []])"
    by (simp add: sel_matches_def)
  show ?thesis using img_selector_compiles m extract_loop_guard [OF img_selector_compiles m] by simp
qed

end
