(* ===== verification/WasmModule.thy ===== *)
theory WasmModule
  imports HtmlUtils ImagesExtractor
begin

text \<open>
  The two crates are compiled to two WebAssembly modules that JavaScript
  instantiates and calls through the \<open>wasm_bindgen\<close> exports.
  The html-utils module (src/lib/html-utils/src/lib.rs) has state that outlives
  a call: the process-wide panic hook and the console it writes to.
  \<^item> \<open>#[wasm_bindgen(start)] fn start\<close> (lines 37-38) runs once, when the
    module is instantiated, and installs \<open>console_error_panic_hook::hook\<close>
    (\<open>instantiate\<close>, \<open>start\<close>);
  \<^item> the export \<open>singleSlide\<close> (lines 8-9) runs \<open>single_slide\<close>; a panic runs
    the installed hook, which reports the panic on the console with
    \<open>console.error\<close>, and then the module traps, which JavaScript sees as a
    thrown exception (\<open>call_single_slide\<close>).
  The images-extractor module has no \<open>start\<close> and no state: its export
  \<open>extractImages\<close> returns the \<open>src\<close> values, each converted to a
  JavaScript string, or traps on a panic (\<open>call_extract_images\<close>).
  The sequence of calls JavaScript makes is a list of call arguments
  (\<open>run_calls\<close>).
\<close>

datatype panic_hook = DefaultHook | ConsoleErrorHook

text \<open>A console line: the report of a panic by the console hook (the text of
  the report is not modelled, the panic's error is). The imported binding
  \<open>log\<close> (lines 40-44) would write lines too, but no code of the crate calls
  it, so no other line can appear.\<close>

datatype console_entry = ConsoleError freya_error

record wasm_module =
  hook :: panic_hook
  console :: "console_entry list"

datatype 'a outcome = Returned 'a | Trapped

definition fresh_module :: wasm_module where
  "fresh_module = \<lparr>hook = DefaultHook, console = []\<rparr>"

definition start :: "wasm_module \<Rightarrow> wasm_module" where
  "start m = m\<lparr>hook := ConsoleErrorHook\<rparr>"

definition instantiate :: wasm_module where
  "instantiate = start fresh_module"

text \<open>A panic runs the installed hook; the default hook of a
  \<open>wasm32-unknown-unknown\<close> build writes to no console.\<close>

definition panic :: "freya_error \<Rightarrow> wasm_module \<Rightarrow> wasm_module" where
  "panic e m = (if hook m = ConsoleErrorHook then m\<lparr>console := console m @ [ConsoleError e]\<rparr> else m)"

definition call_single_slide ::
  "wasm_module \<Rightarrow> token list \<Rightarrow> u32 \<Rightarrow> wasm_module \<times> token list outcome" where
  "call_single_slide m html slide =
     (case single_slide html slide of
        Inr out \<Rightarrow> (m, Returned out)
      | Inl e \<Rightarrow> (panic e m, Trapped))"

fun run_calls :: "wasm_module \<Rightarrow> (token list \<times> u32) list \<Rightarrow> wasm_module \<times> token list outcome list" where
  "run_calls m [] = (m, [])"
| "run_calls m ((html, slide) # cs) =
     (case call_single_slide m html slide of
        (m', r) \<Rightarrow> (case run_calls m' cs of (m'', rs) \<Rightarrow> (m'', r # rs)))"

definition call_extract_images :: "token list \<Rightarrow> string list outcome" where
  "call_extract_images html = (case extract_images html of Some imgs \<Rightarrow> Returned imgs | None \<Rightarrow> Trapped)"

subsection \<open>What one call does to the module\<close>

definition call_report :: "token list \<Rightarrow> u32 \<Rightarrow> console_entry list" where
  "call_report html slide = (case single_slide html slide of Inl e \<Rightarrow> [ConsoleError e] | Inr _ \<Rightarrow> [])"

definition call_result :: "token list \<Rightarrow> u32 \<Rightarrow> token list outcome" where
  "call_result html slide = (case single_slide html slide of Inr out \<Rightarrow> Returned out | Inl _ \<Rightarrow> Trapped)"

lemma call_single_slide_hooked:
  "hook m = ConsoleErrorHook \<Longrightarrow>
     call_single_slide m html slide =
       (m\<lparr>console := console m @ call_report html slide\<rparr>, call_result html slide)"
  by (simp add: call_single_slide_def call_report_def call_result_def panic_def split: sum.split)

lemma call_single_slide_hook [simp]: "hook (fst (call_single_slide m html slide)) = hook m"
  by (simp add: call_single_slide_def panic_def split: sum.split)

lemma run_calls_hooked:
  "hook m = ConsoleErrorHook \<Longrightarrow>
     run_calls m cs =
       (m\<lparr>console := console m @ concat (map (\<lambda>(h, s). call_report h s) cs)\<rparr>,
        map (\<lambda>(h, s). call_result h s) cs)"
proof (induction m cs rule: run_calls.induct)
  case (2 m html slide cs)
  then show ?case by (simp add: call_single_slide_hooked)
qed simp

lemma instantiate_simps [simp]: "hook instantiate = ConsoleErrorHook" "console instantiate = []"
  by (simp_all add: instantiate_def start_def fresh_module_def)

subsection \<open>The module across calls\<close>

text \<open>
  C20. Once the module is instantiated (\<open>start\<close> has run), for every sequence
  of \<open>singleSlide\<close> calls, each call that panics traps and has its panic
  reported on the console, each other call returns the rewritten markup, and the
  console holds exactly one report per panicking call, in call order.
\<close>

theorem start_reports_panics:
  "run_calls instantiate cs =
     (instantiate\<lparr>console := concat (map (\<lambda>(h, s). call_report h s) cs)\<rparr>,
      map (\<lambda>(h, s). call_result h s) cs)"
  using run_calls_hooked [of instantiate cs] by simp

end
