(* ===== verification/Spec2Isabelle.thy ===== *)
theory Spec2Isabelle
  imports WasmModule "HOL-Library.Multiset"
begin

text \<open>
  \<^bold>\<open>A verification library for freya's WebAssembly helpers.\<close>

  The repository's Rust sources are two functions exported to JavaScript:
  \<^item> \<open>extract_images\<close> (src/lib/images-extractor/src/lib.rs): parse the markup
    with \<open>scraper\<close>, select \<open>img[src]\<close>, collect the \<open>src\<close> values in
    document order;
  \<^item> \<open>single_slide\<close> (src/lib/html-utils/src/lib.rs): stream the markup
    through \<open>lol_html::rewrite_str\<close> with five element handlers that drop every
    slide container whose \<open>data-freya-index\<close> differs from the requested slide,
    drop the loading, list and presenter chrome, and force the body's style;
    \<open>start\<close> installs a panic hook; the imported \<open>log\<close> binding is
    never called.
  The two engines share only the markup; neither calls the other. Both reach
  the markup through a library, so the libraries' behaviour that the code relies
  on is modelled too, from the spec (sections 3-4), at the level the code uses it.

  \<^bold>\<open>Theories.\<close>
  \<^item> \<open>Prelude\<close>: the attribute list and \<open>u32\<close> types, Rust's \<open>?\<close> as
    \<open>sbind\<close> on \<open>error + 'a\<close>, the \<open>model_simps\<close> collection that evaluates the
    model on concrete inputs, shared list lemmas.
  \<^item> \<open>Markup\<close>: the tokenizer's output (\<open>token\<close>), the document tree
    (\<open>node\<close>), its pre-order element list, printing a tree as tokens, and the
    tolerant tree builder of \<open>Html::parse_document\<close> (\<open>parse_document\<close>, a
    stack machine over the tokens). Lemmas: building inverts printing on
    well-formed forests; the builder's state invariant (open elements are
    non-void, finished nodes well formed) makes every built document well
    formed; the printing of every subtree of a well-formed forest is a
    contiguous part of the forest's printing.
  \<^item> \<open>Selector\<close>: the spec's three predicate shapes, compound matching and the
    selector compiler (\<open>parse_selector\<close>, \<open>None\<close> = \<open>SelectorSyntaxError\<close>).
  \<^item> \<open>U32Parse\<close>: \<open>str::parse::<u32>\<close> (line 16 of html-utils): the
    library's unchecked fast path for at most eight digits and its checked loop
    with 32-bit checked arithmetic. The parser agrees with the decimal reading
    (the fast path changes no result), round-trips with decimal printing and
    rejects values of 2^32 and more.
  \<^item> \<open>Rewriter\<close>: \<open>lol_html::rewrite_str\<close> as a one-pass machine over the
    token stream (\<open>rewrite_tokens\<close>, state: the stack of open elements, each
    marked removed or not; an end tag closes the innermost open element of its
    name), element handlers over an \<open>element\<close> record
    (\<open>get_attribute\<close>, \<open>set_attribute\<close>, \<open>remove\<close>), the same rewrite on the
    tree (\<open>rw_nodes\<close>), and the refinement: the stream machine implements the
    tree rewrite on every well-formed tree. On arbitrary token streams the
    machine only deletes tokens and rewrites start-tag attributes
    (\<open>rewrite_tokens_subseq\<close>).
  \<^item> \<open>HtmlUtils\<close>: \<open>single_slide\<close> itself: the five handlers, their selector
    strings compiled as the \<open>element!\<close> macro does, the unwraps as
    \<open>freya_error\<close> values. Lemmas: what one start tag becomes
    (\<open>run_freya_handlers\<close>), no chrome and a forced body style in the
    output, surviving slides carry the requested index, attribute order and
    values kept, the exact failure condition and the error reported (the
    parse error of the first bad index in stream order), the slides kept on a
    tree, the path condition \<open>kept_in\<close> under which a node survives,
    idempotence, and that the output is a subsequence of the input up to
    attributes. The spec's first-match reading of the rules
    (\<open>first_match_directive\<close>) is stated as an abstract specification: the
    handlers implement it on every element outside the overlap of body and
    slide or chrome.
  \<^item> \<open>WasmModule\<close>: the two WebAssembly modules as JavaScript sees them. The
    html-utils module's state is its panic hook and console; \<open>start\<close> runs at
    instantiation, a panicking export reports through the hook and traps. Over
    any sequence of \<open>singleSlide\<close> calls each panic is reported exactly
    once, in order.
  \<^item> \<open>ImagesExtractor\<close>: \<open>extract_images\<close> with its \<open>select\<close> walk and push
    loop, equal to the list of \<open>src\<close> values of \<open>img\<close> elements in document
    order; length, duplicates, the dead \<open>is_some\<close> guard.
  \<^item> This theory: properties that span components, stated on token streams:
    exactly one slide survives (printing, rewriting and tree building
    together), the requested slide comes out whole and contiguous, content
    included, and an untouched document passes through unchanged.

  \<^bold>\<open>Modelling choices.\<close> Markup enters every engine as a token list: the
  character-level HTML tokenizer is not modelled, and tag and attribute names
  are taken as lower-cased by it. Panics (\<open>unwrap\<close>) are \<open>Inl\<close> values of
  \<open>freya_error\<close> (or \<open>None\<close> for the extractor's selector), so every early
  exit of the code is a branch of the model. \<open>u32\<close> is \<open>32 word\<close>; the
  parser's overflow checks are on \<open>unat\<close>. No loop needs fuel: the token
  machines and tree functions recurse structurally, the tree builder's closing
  loops terminate by the height of the open-element stack, and the selector
  compiler by the length of the rest of the selector string. Of
  \<open>lol_html\<close> the model assumes what its documentation states: every handler
  whose selector matches a start tag runs, in registration order, on the tag as
  read; \<open>remove\<close> drops the element with its content, up to the end tag
  that closes it by name; handlers still run on the start tags inside a removed
  element; an end tag whose element is not open is passed through.

  \<^bold>\<open>Not modelled.\<close> The character-level HTML tokenizer, and of the HTML5
  tree construction of \<open>Html::parse_document\<close> everything but the rules
  above: the implied html/head/body elements, the special-element and scope
  barriers for end tags, stray \<open></p>\<close> and \<open></br>\<close>, the reading of an
  \<open>image\<close> start tag as \<open>img\<close>, the adoption agency for misnested
  formatting elements, foreign (SVG, MathML) content and table foster
  parenting. The properties of \<open>extract_images\<close> are therefore stated on the
  tree \<open>parse_document\<close> builds, not on the token stream. Of \<open>lol_html\<close>:
  the errors it raises by itself (\<open>ParsingAmbiguity\<close>, memory limits), which
  the final \<open>unwrap\<close> of \<open>single_slide\<close> would also turn into panics, and
  ASCII case-insensitive names (the model takes names as already lower case).
  Not modelled either: general CSS selectors (a non-goal of the spec; the code
  compiles only the six selector strings modelled), the JavaScript string
  conversions of \<open>wasm_bindgen\<close> (\<open>&str\<close>, \<open>String\<close>, \<open>JsString\<close>:
  identity on the text) and its generated glue code, the imported
  \<open>console.log\<close> binding (lines 40-44 of html-utils), which no code calls, and
  the text of the console message (the model keeps the panic's error value
  instead). The import lines of both files are declarations with nothing to
  model.

  \<^bold>\<open>Plan.\<close> Modelled and proved, in order of importance: the
  \<open>single_slide\<close> pipeline and its output properties (safety of the
  chrome removal, the forced style, the slide kept, the failure condition and
  the error it reports), the stream/tree refinement of the rewriter,
  \<open>extract_images\<close> against its specification on the built tree, the
  \<open>u32\<close> parser, the first-match specification, the rewriter on arbitrary
  token streams (deletion only), the builder's well-formedness invariant, the
  module's state across calls, and the requested slide kept whole. What
  remains is listed under Not modelled. The spec's corrected index policy (an
  unparseable index removes its container) is a recommendation, not code of
  the repository, and is left out; the development records the code's
  fail-fast behaviour and the error it reports instead.
\<close>

section \<open>Single slide on token streams\<close>

lemma single_slide_tree:
  "wf_nodes f \<Longrightarrow> single_slide (serialise_nodes f) slide = Inr out \<Longrightarrow>
     \<exists>f'. rw_nodes (freya_handlers slide) f = Inr f' \<and> wf_nodes f' \<and> parse_document out = f'"
proof -
  assume wf: "wf_nodes f" and out: "single_slide (serialise_nodes f) slide = Inr out"
  from out rewrite_str_serialised [OF wf, of "freya_handlers slide"] obtain f' where
    f': "rw_nodes (freya_handlers slide) f = Inr f'" and "out = serialise_nodes f'"
    by (auto simp: single_slide_rewrite)
  moreover from f' wf have "wf_nodes f'" by (rule rw_wf)
  ultimately show ?thesis using parse_serialised by blast
qed

lemma filter_indices_upto:
  "N \<le> 2 ^ 32 \<Longrightarrow> filter (\<lambda>x. x = Some k) (map (\<lambda>i. Some (of_nat i :: u32)) [0..<N]) =
     (if unat k < N then [Some k] else [])"
proof -
  assume N: "N \<le> 2 ^ 32"
  have "(of_nat i :: u32) = k \<longleftrightarrow> i = unat k" if "i < N" for i
  proof
    assume "of_nat i = k"
    moreover have "i < 2 ^ 32" using that N by linarith
    ultimately show "i = unat k" by (auto simp: unat_of_nat)
  qed simp
  then have "filter (\<lambda>i. (of_nat i :: u32) = k) [0..<N] = filter (\<lambda>i. i = unat k) [0..<N]"
    by (intro filter_cong) auto
  moreover have "filter (\<lambda>i. i = unat k) [0..<N] = (if unat k < N then [unat k] else [])"
    by (induction N) auto
  ultimately show ?thesis by (simp add: filter_map o_def)
qed

lemma map_filter_conj:
  "map (\<lambda>(t, a). g a) (filter (\<lambda>(t, a). P a \<and> g a = v) E) =
   filter (\<lambda>x. x = v) (map (\<lambda>(t, a). g a) (filter (\<lambda>(t, a). P a) E))"
  by (induction E) auto

text \<open>Indices that are a permutation of \<open>0..N-1\<close> are all present, and exactly
  one of them, or none, is the requested slide.\<close>

lemma slide_indices_valid:
  assumes "set (map (\<lambda>(t, a). slide_index_of a) (filter (\<lambda>(t, a). is_slide a) E)) =
             set (map (\<lambda>i. Some (of_nat i :: u32)) [0..<N])"
  shows "list_all (\<lambda>(t, a). is_slide a \<longrightarrow> slide_index_of a \<noteq> None) E"
  unfolding list_all_iff
proof (intro ballI)
  fix e assume e: "e \<in> set E"
  obtain t a where ta: "e = (t, a)" by (cases e)
  have "slide_index_of a \<noteq> None" if "is_slide a"
  proof
    assume none: "slide_index_of a = None"
    from e ta that have "slide_index_of a \<in> set (map (\<lambda>(t, a). slide_index_of a) (filter (\<lambda>(t, a). is_slide a) E))"
      by force
    with assms none show False by (simp only:) auto
  qed
  with ta show "(\<lambda>(t, a). is_slide a \<longrightarrow> slide_index_of a \<noteq> None) e" by simp
qed

lemma filter_permuted_indices:
  assumes "mset xs = mset (map (\<lambda>i. Some (of_nat i :: u32)) [0..<N])" and "N \<le> 2 ^ 32"
  shows "filter (\<lambda>x. x = Some k) xs = (if unat k < N then [Some k] else [])"
proof -
  have "mset (filter (\<lambda>x. x = Some k) xs) =
      mset (filter (\<lambda>x. x = Some k) (map (\<lambda>i. Some (of_nat i)) [0..<N]))"
    by (simp only: mset_filter assms(1))
  then have "mset (filter (\<lambda>x. x = Some k) xs) = mset (if unat k < N then [Some k] else [])"
    by (simp only: filter_indices_upto [OF assms(2)])
  then show ?thesis
    by (cases "unat k < N") (simp_all only: if_True if_False mset.simps mset_single_iff mset_zero_iff)
qed

text \<open>
  C3. For a well-formed deck whose slide containers are not nested in slide or
  chrome elements and carry the indices \<open>0..N-1\<close> (in any order), the
  document \<open>single_slide\<close> returns for slide \<open>k\<close> contains exactly one slide
  container, bearing index \<open>k\<close>, when \<open>k < N\<close>, and none otherwise.
\<close>

theorem single_slide_exactly_one:
  assumes wf: "wf_nodes f" and exposed: "slides_exposed_nodes f"
    and idx: "mset (map (\<lambda>(t, a). slide_index_of a) (filter (\<lambda>(t, a). is_slide a) (elems_nodes f))) =
              mset (map (\<lambda>i. Some (of_nat i)) [0..<N])"
    and N: "N \<le> 2 ^ 32"
    and out: "single_slide (serialise_nodes f) slide = Inr out"
  shows "map (\<lambda>(t, a). slide_index_of a) (filter (\<lambda>(t, a). is_slide a) (elems_nodes (parse_document out))) =
           (if unat slide < N then [Some slide] else [])"
proof -
  let ?xs = "map (\<lambda>(t, a). slide_index_of a) (filter (\<lambda>(t, a). is_slide a) (elems_nodes f))"
  from single_slide_tree [OF wf out] obtain f' where
    f': "rw_nodes (freya_handlers slide) f = Inr f'" and doc: "parse_document out = f'" by blast
  have valid: "list_all (\<lambda>(t, a). is_slide a \<longrightarrow> slide_index_of a \<noteq> None) (elems_nodes f)"
    using arg_cong [OF idx, of set_mset] by (simp only: set_mset_mset slide_indices_valid)
  have keep: "slide_index_of (body_attrs t a) = slide_index_of a" for t a
    by (simp add: slide_index_of_def)
  have "map (\<lambda>(t, a). slide_index_of a) (filter (\<lambda>(t, a). is_slide a) (elems_nodes f')) =
     map (\<lambda>(t, a). slide_index_of a)
       (filter (\<lambda>(t, a). is_slide a \<and> slide_index_of a = Some slide) (elems_nodes f))"
    by (simp only: rw_freya_slides(2) [OF exposed valid f'] map_map o_def case_prod_beta keep fst_conv snd_conv)
      (simp add: split_def)
  also have "\<dots> = filter (\<lambda>x. x = Some slide) ?xs"
    by (rule map_filter_conj)
  also have "\<dots> = (if unat slide < N then [Some slide] else [])"
    by (rule filter_permuted_indices [OF idx N])
  finally show ?thesis using doc by simp
qed

lemma deck_tree_run: "single_slide (serialise_nodes [Element ''body'' [] [Element ''div'' [(''data-freya-id'', ''slide''), (''data-freya-index'', ''0'')] [Element ''img'' [(''src'', ''a.png'')] []], Element ''div'' [(''data-freya-id'', ''slide''), (''data-freya-index'', ''1'')] [Element ''img'' [(''src'', ''b.png'')] []]]]) 1 = Inr [StartTag ''body'' [(''style'', ''display: block; overflow: auto'')], StartTag ''div'' [(''data-freya-id'', ''slide''), (''data-freya-index'', ''1'')], StartTag ''img'' [(''src'', ''b.png'')], EndTag ''div'', EndTag ''body'']"
  by (simp add: model_simps)

theorem single_slide_exactly_one_witness:
  "wf_nodes [Element ''body'' [] [Element ''div'' [(''data-freya-id'', ''slide''), (''data-freya-index'', ''0'')] [Element ''img'' [(''src'', ''a.png'')] []], Element ''div'' [(''data-freya-id'', ''slide''), (''data-freya-index'', ''1'')] [Element ''img'' [(''src'', ''b.png'')] []]]] \<and> slides_exposed_nodes [Element ''body'' [] [Element ''div'' [(''data-freya-id'', ''slide''), (''data-freya-index'', ''0'')] [Element ''img'' [(''src'', ''a.png'')] []], Element ''div'' [(''data-freya-id'', ''slide''), (''data-freya-index'', ''1'')] [Element ''img'' [(''src'', ''b.png'')] []]]] \<and>
   mset (map (\<lambda>(t, a). slide_index_of a) (filter (\<lambda>(t, a). is_slide a) (elems_nodes [Element ''body'' [] [Element ''div'' [(''data-freya-id'', ''slide''), (''data-freya-index'', ''0'')] [Element ''img'' [(''src'', ''a.png'')] []], Element ''div'' [(''data-freya-id'', ''slide''), (''data-freya-index'', ''1'')] [Element ''img'' [(''src'', ''b.png'')] []]]]))) =
     mset (map (\<lambda>i. Some (of_nat i)) [0..<2]) \<and>
   (2::nat) \<le> 2 ^ 32 \<and>
   single_slide (serialise_nodes [Element ''body'' [] [Element ''div'' [(''data-freya-id'', ''slide''), (''data-freya-index'', ''0'')] [Element ''img'' [(''src'', ''a.png'')] []], Element ''div'' [(''data-freya-id'', ''slide''), (''data-freya-index'', ''1'')] [Element ''img'' [(''src'', ''b.png'')] []]]]) 1 = Inr [StartTag ''body'' [(''style'', ''display: block; overflow: auto'')], StartTag ''div'' [(''data-freya-id'', ''slide''), (''data-freya-index'', ''1'')], StartTag ''img'' [(''src'', ''b.png'')], EndTag ''div'', EndTag ''body''] \<and>
   map (\<lambda>(t, a). slide_index_of a) (filter (\<lambda>(t, a). is_slide a) (elems_nodes (parse_document [StartTag ''body'' [(''style'', ''display: block; overflow: auto'')], StartTag ''div'' [(''data-freya-id'', ''slide''), (''data-freya-index'', ''1'')], StartTag ''img'' [(''src'', ''b.png'')], EndTag ''div'', EndTag ''body'']))) =
     (if unat (1::u32) < 2 then [Some 1] else [])"
proof -
  have wf: "wf_nodes [Element ''body'' [] [Element ''div'' [(''data-freya-id'', ''slide''), (''data-freya-index'', ''0'')] [Element ''img'' [(''src'', ''a.png'')] []], Element ''div'' [(''data-freya-id'', ''slide''), (''data-freya-index'', ''1'')] [Element ''img'' [(''src'', ''b.png'')] []]]]" by (simp add: model_simps)
  have ex: "slides_exposed_nodes [Element ''body'' [] [Element ''div'' [(''data-freya-id'', ''slide''), (''data-freya-index'', ''0'')] [Element ''img'' [(''src'', ''a.png'')] []], Element ''div'' [(''data-freya-id'', ''slide''), (''data-freya-index'', ''1'')] [Element ''img'' [(''src'', ''b.png'')] []]]]" by (simp add: is_slide_def is_chrome_def)
  have ix: "mset (map (\<lambda>(t, a). slide_index_of a) (filter (\<lambda>(t, a). is_slide a) (elems_nodes [Element ''body'' [] [Element ''div'' [(''data-freya-id'', ''slide''), (''data-freya-index'', ''0'')] [Element ''img'' [(''src'', ''a.png'')] []], Element ''div'' [(''data-freya-id'', ''slide''), (''data-freya-index'', ''1'')] [Element ''img'' [(''src'', ''b.png'')] []]]]))) =
     mset (map (\<lambda>i. Some (of_nat i)) [0..<2])"
    by (simp add: is_slide_def slide_index_of_def model_simps upt_rec)
  have n: "(2::nat) \<le> 2 ^ 32" by simp
  show ?thesis using wf ex ix n deck_tree_run single_slide_exactly_one [OF wf ex ix n deck_tree_run] by simp
qed

text \<open>
  C21. A well-formed document in which no element is a slide container, a
  chrome element or a body comes out of \<open>single_slide\<close> unchanged, text and
  descendants included.
\<close>

theorem single_slide_untouched:
  "wf_nodes f \<Longrightarrow> list_all (\<lambda>(t, a). \<not> is_slide a \<and> \<not> is_chrome a \<and> t \<noteq> ''body'') (elems_nodes f) \<Longrightarrow>
     single_slide (serialise_nodes f) slide = Inr (serialise_nodes f)"
  by (simp add: single_slide_rewrite rewrite_str_serialised rw_freya_untouched(2))

theorem single_slide_untouched_witness:
  "wf_nodes [Element ''div'' [(''class'', ''x'')] [Text ''hi'', Element ''img'' [(''src'', ''a.png'')] []]] \<and> list_all (\<lambda>(t, a). \<not> is_slide a \<and> \<not> is_chrome a \<and> t \<noteq> ''body'') (elems_nodes [Element ''div'' [(''class'', ''x'')] [Text ''hi'', Element ''img'' [(''src'', ''a.png'')] []]]) \<and>
   single_slide (serialise_nodes [Element ''div'' [(''class'', ''x'')] [Text ''hi'', Element ''img'' [(''src'', ''a.png'')] []]]) 0 = Inr (serialise_nodes [Element ''div'' [(''class'', ''x'')] [Text ''hi'', Element ''img'' [(''src'', ''a.png'')] []]])"
proof -
  have wf: "wf_nodes [Element ''div'' [(''class'', ''x'')] [Text ''hi'', Element ''img'' [(''src'', ''a.png'')] []]]" by (simp add: model_simps)
  have n: "list_all (\<lambda>(t, a). \<not> is_slide a \<and> \<not> is_chrome a \<and> t \<noteq> ''body'') (elems_nodes [Element ''div'' [(''class'', ''x'')] [Text ''hi'', Element ''img'' [(''src'', ''a.png'')] []]])"
    by (simp add: is_slide_def is_chrome_def)
  show ?thesis using wf n single_slide_untouched [OF wf n, of 0] by simp
qed

section \<open>The requested slide survives whole\<close>

text \<open>
  C4. The requested slide comes through \<open>single_slide\<close> whole: when a slide
  container whose index is the requested one sits in the deck under elements
  that are kept (no chrome, no slide container with another index), and it
  holds no slide container, chrome element or body of its own, then its markup,
  start tag, attributes, all its content and end tag, appears unchanged and
  contiguous in the output.
\<close>

theorem single_slide_keeps_slide:
  assumes wf: "wf_nodes f"
    and out: "single_slide (serialise_nodes f) slide = Inr out"
    and kept: "kept_in slide (Element t a cs) f"
    and s: "is_slide a" "slide_index_of a = Some slide" "t \<noteq> ''body''"
    and cs: "list_all (\<lambda>(t, a). \<not> is_slide a \<and> \<not> is_chrome a \<and> t \<noteq> ''body'') (elems_nodes cs)"
  shows "sublist (serialise_node (Element t a cs)) out"
proof -
  from out have "rewrite_str (freya_handlers slide) (serialise_nodes f) = Inr out"
    by (simp add: single_slide_rewrite)
  with rewrite_str_serialised [OF wf, of "freya_handlers slide"] obtain f' where
    f': "rw_nodes (freya_handlers slide) f = Inr f'" and o: "out = serialise_nodes f'"
    by (cases "rw_nodes (freya_handlers slide) f") auto
  have "Element t a cs \<in> set (subtrees_nodes f')"
    by (rule rw_freya_kept [OF kept f' rw_freya_requested_slide [OF s cs]])
  moreover have "wf_nodes f'" by (rule rw_wf(2) [OF f' wf])
  ultimately show ?thesis using serialise_subtrees(2) o by blast
qed

theorem single_slide_keeps_slide_witness:
  "wf_nodes [Element ''body'' [] [Element ''div'' [(''data-freya-id'', ''slide''), (''data-freya-index'', ''0'')] [Element ''img'' [(''src'', ''a.png'')] []], Element ''div'' [(''data-freya-id'', ''slide''), (''data-freya-index'', ''1'')] [Element ''img'' [(''src'', ''b.png'')] []]]] \<and> single_slide (serialise_nodes [Element ''body'' [] [Element ''div'' [(''data-freya-id'', ''slide''), (''data-freya-index'', ''0'')] [Element ''img'' [(''src'', ''a.png'')] []], Element ''div'' [(''data-freya-id'', ''slide''), (''data-freya-index'', ''1'')] [Element ''img'' [(''src'', ''b.png'')] []]]]) 1 = Inr [StartTag ''body'' [(''style'', ''display: block; overflow: auto'')], StartTag ''div'' [(''data-freya-id'', ''slide''), (''data-freya-index'', ''1'')], StartTag ''img'' [(''src'', ''b.png'')], EndTag ''div'', EndTag ''body''] \<and>
   kept_in 1 (Element ''div'' [(''data-freya-id'', ''slide''), (''data-freya-index'', ''1'')] [Element ''img'' [(''src'', ''b.png'')] []]) [Element ''body'' [] [Element ''div'' [(''data-freya-id'', ''slide''), (''data-freya-index'', ''0'')] [Element ''img'' [(''src'', ''a.png'')] []], Element ''div'' [(''data-freya-id'', ''slide''), (''data-freya-index'', ''1'')] [Element ''img'' [(''src'', ''b.png'')] []]]] \<and>
   is_slide [(''data-freya-id'', ''slide''), (''data-freya-index'', ''1'')] \<and> slide_index_of [(''data-freya-id'', ''slide''), (''data-freya-index'', ''1'')] = Some 1 \<and> ''div'' \<noteq> ''body'' \<and>
   list_all (\<lambda>(t, a). \<not> is_slide a \<and> \<not> is_chrome a \<and> t \<noteq> ''body'') (elems_nodes [Element ''img'' [(''src'', ''b.png'')] []]) \<and>
   sublist (serialise_node (Element ''div'' [(''data-freya-id'', ''slide''), (''data-freya-index'', ''1'')] [Element ''img'' [(''src'', ''b.png'')] []])) [StartTag ''body'' [(''style'', ''display: block; overflow: auto'')], StartTag ''div'' [(''data-freya-id'', ''slide''), (''data-freya-index'', ''1'')], StartTag ''img'' [(''src'', ''b.png'')], EndTag ''div'', EndTag ''body'']"
proof -
  have wf: "wf_nodes [Element ''body'' [] [Element ''div'' [(''data-freya-id'', ''slide''), (''data-freya-index'', ''0'')] [Element ''img'' [(''src'', ''a.png'')] []], Element ''div'' [(''data-freya-id'', ''slide''), (''data-freya-index'', ''1'')] [Element ''img'' [(''src'', ''b.png'')] []]]]" by (simp add: model_simps)
  have k: "kept_in 1 (Element ''div'' [(''data-freya-id'', ''slide''), (''data-freya-index'', ''1'')] [Element ''img'' [(''src'', ''b.png'')] []]) [Element ''body'' [] [Element ''div'' [(''data-freya-id'', ''slide''), (''data-freya-index'', ''0'')] [Element ''img'' [(''src'', ''a.png'')] []], Element ''div'' [(''data-freya-id'', ''slide''), (''data-freya-index'', ''1'')] [Element ''img'' [(''src'', ''b.png'')] []]]]"
    by (rule kept_in.down [where t = "''body''" and a = "[]"]) (auto intro: kept_in.here simp: model_simps)
  have s: "is_slide [(''data-freya-id'', ''slide''), (''data-freya-index'', ''1'')]" "slide_index_of [(''data-freya-id'', ''slide''), (''data-freya-index'', ''1'')] = Some 1" "''div'' \<noteq> ''body''"
    by (simp_all add: is_slide_def slide_index_of_def model_simps)
  have c: "list_all (\<lambda>(t, a). \<not> is_slide a \<and> \<not> is_chrome a \<and> t \<noteq> ''body'') (elems_nodes [Element ''img'' [(''src'', ''b.png'')] []])"
    by (simp add: is_slide_def is_chrome_def)
  show ?thesis using wf deck_tree_run k s c single_slide_keeps_slide [OF wf deck_tree_run k s c] by simp
qed

end
